theory Spec2Isabelle
  imports Complex_Main "HOL-Library.Word"
begin

section \<open>Values of the program\<close>

text \<open>
  A Python \<open>str\<close> is a \<open>string\<close> (the characters of the model are the code points
  0 to 255); a Python \<open>bytes\<close> object is a list of 8-bit words. Python's integers are
  unbounded, so the numeric fields of the configuration are \<open>int\<close>.
\<close>

type_synonym bytes = "8 word list"

datatype error = UnicodeDecodeError | SpoolerError

subsection \<open>Formatting an integer, as an f-string or \<open>str.format\<close> does\<close>

definition digit_char :: "nat \<Rightarrow> char" where
  "digit_char d = ''0123456789'' ! d"

fun digits :: "nat \<Rightarrow> string" where
  "digits n = (if n < 10 then [digit_char n] else digits (n div 10) @ [digit_char (n mod 10)])"

declare digits.simps [simp del]

definition str_int :: "int \<Rightarrow> string" where
  "str_int i = (if i < 0 then CHR ''-'' # digits (nat (- i)) else digits (nat i))"

subsection \<open>\<open>bytes.decode('ascii')\<close> and \<open>str.encode('utf-8')\<close>\<close>

definition decode_ascii :: "bytes \<Rightarrow> error + string" where
  "decode_ascii bs =
     (if list_all (\<lambda>b. b < 128) bs then Inr (map (\<lambda>b. char_of (unat b)) bs)
      else Inl UnicodeDecodeError)"

definition encode_char :: "char \<Rightarrow> bytes" where
  "encode_char c =
     (let n = (of_char c :: nat)
      in if n < 128 then [of_nat n] else [of_nat (192 + n div 64), of_nat (128 + n mod 64)])"

definition encode_utf8 :: "string \<Rightarrow> bytes" where
  "encode_utf8 s = concat (map encode_char s)"

subsection \<open>\<open>re.fullmatch\<close> on a pattern that is a sequence of one-character atoms\<close>

datatype atom = Lit char | Class string

fun atom_matches :: "atom \<Rightarrow> char \<Rightarrow> bool" where
  "atom_matches (Lit a) c = (c = a)"
| "atom_matches (Class cs) c = (c \<in> set cs)"

fun fullmatch :: "atom list \<Rightarrow> string \<Rightarrow> bool" where
  "fullmatch [] [] = True"
| "fullmatch (a # as) (c # cs) = (atom_matches a c \<and> fullmatch as cs)"
| "fullmatch [] (c # cs) = False"
| "fullmatch (a # as) [] = False"

text \<open>The pattern \<^verbatim>\<open>[@BCFPW]@@@\<close> of \<open>can_print\<close>.\<close>

definition status_pattern :: "atom list" where
  "status_pattern = [Class ''@BCFPW'', Lit CHR ''@'', Lit CHR ''@'', Lit CHR ''@'']"

section \<open>The environment: console, device file, spooler, clock\<close>

text \<open>
  Every effect of the program is an event of a trace, in the order it happens.
  \<open>Stdout\<close> is one call of \<open>print\<close> on standard output (the line, without its
  newline), \<open>Stderr\<close> one call of \<open>print\<close> on \<open>sys.stderr\<close> (the text with its
  end), \<open>OsWrite\<close> and \<open>OsRead\<close>
  one \<open>os.write\<close> and one \<open>os.read\<close> on the device file with the bytes moved,
  \<open>Sleep\<close> one \<open>time.sleep\<close>, and \<open>WritePrinter\<close> the raw job handed to the
  Windows spooler.

  \<open>replies\<close> holds what the device answers to the coming reads, one entry for each
  \<open>os.read\<close>; a read of \<open>n\<close> bytes gets at most \<open>n\<close> bytes of the answer, and
  a device with nothing left to say yields the empty bytes object.
  \<open>spooler_ok\<close> tells whether the \<open>win32print\<close> calls of a job succeed.
  Writes to the device are taken to succeed.
\<close>

datatype event =
    Stdout string
  | Stderr string
  | OsWrite bytes
  | OsRead bytes
  | Sleep real
  | WritePrinter bytes

record world =
  trace :: "event list"
  replies :: "bytes list"
  spooler_ok :: bool

definition emit_event :: "event \<Rightarrow> world \<Rightarrow> world" where
  "emit_event e w = w\<lparr>trace := trace w @ [e]\<rparr>"

definition os_write :: "bytes \<Rightarrow> world \<Rightarrow> world" where
  "os_write bs w = emit_event (OsWrite bs) w"

definition os_read :: "nat \<Rightarrow> world \<Rightarrow> bytes \<times> world" where
  "os_read n w =
     (case replies w of
        [] \<Rightarrow> ([], emit_event (OsRead []) w)
      | r # rs \<Rightarrow> (take n r, emit_event (OsRead (take n r)) (w\<lparr>replies := rs\<rparr>)))"

definition NL :: string where
  "NL = [CHR 0x0A]"

definition sleep :: "real \<Rightarrow> world \<Rightarrow> world" where
  "sleep t w = emit_event (Sleep t) w"

section \<open>barcode\_printer\_gui.py\<close>

definition DOTS_MM :: int where
  "DOTS_MM = 8"

record BarcodeConfig =
  width_mm :: int
  height_mm :: int
  gap_mm :: int
  barcode_type :: string
  barcode_height :: int
  barcode_width :: int
  font_size :: int
  top_text :: string
  bottom_text :: string
  barcode_data :: string
  orientation :: int
  num_copies :: int

text \<open>\<open>BarcodeConfig.__init__\<close>: the defaults.\<close>

definition BarcodeConfig_init :: BarcodeConfig where
  "BarcodeConfig_init =
     \<lparr>width_mm = 100, height_mm = 50, gap_mm = 2,
      barcode_type = ''code128'', barcode_height = 15, barcode_width = 2,
      font_size = 24, top_text = [], bottom_text = [], barcode_data = [],
      orientation = 1, num_copies = 1\<rparr>"

text \<open>
  The fields of a \<open>ThermalPrinter\<close> that its methods read. \<open>command_buffer\<close> is
  \<open>None\<close> while the object has no attribute \<open>_command_buffer\<close>.
\<close>

record ThermalPrinter =
  printer_path :: string
  dry_run :: bool
  is_windows :: bool
  command_buffer :: "string list option"

type_synonym state = "ThermalPrinter \<times> world"

definition status_probe :: bytes where
  "status_probe = [0x1B, 0x21, 0x53, 0x0D, 0x0A]"

definition CRLF :: string where
  "CRLF = [CHR 0x0D, CHR 0x0A]"

definition printer_status :: "ThermalPrinter \<Rightarrow> world \<Rightarrow> (error + string) \<times> world" where
  "printer_status p w =
     (if dry_run p then (Inr ''@@@@'', w)
      else if is_windows p then (Inr ''@@@@'', w)
      else
        let w1 = os_write status_probe w;
            (status, w2) = os_read 8 w1
        in (decode_ascii (take 4 (drop 1 status)), w2))"

definition can_print :: "ThermalPrinter \<Rightarrow> world \<Rightarrow> (error + bool) \<times> world" where
  "can_print p w =
     (if dry_run p then (Inr True, w)
      else if is_windows p then (Inr True, w)
      else
        case printer_status p w of
          (Inl e, w1) \<Rightarrow> (Inl e, w1)
        | (Inr token, w1) \<Rightarrow> (Inr (fullmatch status_pattern token), w1))"

text \<open>
  The \<open>while\<close> loop of \<open>wait_printer\<close>. It has no bound, so it is a partial function:
  \<open>None\<close> is the loop that never ends.
\<close>

partial_function (option) wait_loop :: "ThermalPrinter \<Rightarrow> world \<Rightarrow> ((error + unit) \<times> world) option" where
  "wait_loop p w =
     (case can_print p w of
        (Inl e, w1) \<Rightarrow> Some (Inl e, w1)
      | (Inr ready, w1) \<Rightarrow>
          if \<not> ready then wait_loop p (sleep 1 w1) else Some (Inr (), w1))"

declare wait_loop.simps [code]

definition wait_printer :: "ThermalPrinter \<Rightarrow> world \<Rightarrow> ((error + unit) \<times> world) option" where
  "wait_printer p w =
     (if dry_run p then Some (Inr (), w)
      else
        case can_print p w of
          (Inl e, w1) \<Rightarrow> Some (Inl e, w1)
        | (Inr ready, w1) \<Rightarrow>
            if \<not> ready then
              wait_loop p (sleep (1 / 2) (emit_event (Stderr (''Waiting for printer...'' @ NL)) w1))
            else Some (Inr (), w1))"

fun command :: "string \<Rightarrow> state \<Rightarrow> state" where
  "command cmd (p, w) =
       (if dry_run p then (p, emit_event (Stdout cmd) w)
        else if is_windows p then
          (let buf = (case command_buffer p of None \<Rightarrow> [] | Some b \<Rightarrow> b)
           in (p\<lparr>command_buffer := Some (buf @ [cmd @ CRLF])\<rparr>, w))
        else (p, os_write (encode_utf8 CRLF) (os_write (encode_utf8 cmd) w)))"

definition setup_page :: "BarcodeConfig \<Rightarrow> state \<Rightarrow> state" where
  "setup_page config s =
     (let s0 = (case s of (p, w) \<Rightarrow>
                  if is_windows p \<and> \<not> dry_run p then
                    (if command_buffer p = None then (p\<lparr>command_buffer := Some []\<rparr>, w) else (p, w))
                  else (p, w));
          s1 = command (''SIZE '' @ str_int (width_mm config) @ '' mm,'' @ str_int (height_mm config) @ '' mm'') s0;
          s2 = command (''GAP '' @ str_int (gap_mm config) @ '' mm,0 mm'') s1;
          s3 = command ''CODEPAGE UTF-8'' s2;
          s4 = command (''DIRECTION '' @ str_int (orientation config)) s3
      in command ''CLS'' s4)"

text \<open>
  \<open>_flush_commands\<close>: the buffered lines go to the spooler as one raw job, and the
  buffer is emptied. Whatever \<open>win32print\<close> raises comes out as one exception, and the
  buffer is left as it was.
\<close>

fun flush_commands :: "state \<Rightarrow> (error + unit) \<times> state" where
  "flush_commands (p, w) =
       (case command_buffer p of
          None \<Rightarrow> (Inr (), (p, w))
        | Some buf \<Rightarrow>
            if buf = [] then (Inr (), (p, w))
            else if spooler_ok w then
              (Inr (), (p\<lparr>command_buffer := Some []\<rparr>,
                        emit_event (WritePrinter (encode_utf8 (concat buf))) w))
            else (Inl SpoolerError, (p, w)))"

fun print_barcode :: "BarcodeConfig \<Rightarrow> state \<Rightarrow> ((error + unit) \<times> state) option" where
  \<open>print_barcode config (p, w) =
       (case wait_printer p w of
          None \<Rightarrow> None
        | Some (Inl e, w1) \<Rightarrow> Some (Inl e, (p, w1))
        | Some (Inr u, w1) \<Rightarrow>
            let s1 = setup_page config (p, w1);
                width_dots = width_mm config * DOTS_MM;
                height_dots = height_mm config * DOTS_MM;
                x_center = width_dots div 2;
                y_pos = 10;
                (s2, y_pos) =
                  (if top_text config \<noteq> [] then
                     (command (''TEXT '' @ str_int x_center @ '','' @ str_int y_pos @ '',"0",0,''
                               @ str_int (font_size config) @ '','' @ str_int (font_size config)
                               @ '',2,"'' @ top_text config @ ''"'') s1,
                      y_pos + (font_size config + 10))
                   else (s1, y_pos));
                (s3, y_pos) =
                  (if barcode_data config \<noteq> [] then
                     let barcode_height_dots = barcode_height config * DOTS_MM
                     in (command (''BARCODE '' @ str_int x_center @ '','' @ str_int y_pos @ '',"128",''
                                  @ str_int barcode_height_dots @ '',1,0,''
                                  @ str_int (barcode_width config) @ '',2,"''
                                  @ barcode_data config @ ''"'') s2,
                         y_pos + (barcode_height_dots + 20))
                   else (s2, y_pos));
                s4 =
                  (if bottom_text config \<noteq> [] then
                     command (''TEXT '' @ str_int x_center @ '','' @ str_int y_pos @ '',"0",0,''
                              @ str_int (font_size config) @ '','' @ str_int (font_size config)
                              @ '',2,"'' @ bottom_text config @ ''"'') s3
                   else s3);
                s5 = command (''PRINT 1,'' @ str_int (num_copies config)) s4
            in
              Some (if is_windows (fst s5) \<and> \<not> dry_run (fst s5) \<and> command_buffer (fst s5) \<noteq> None
                    then flush_commands s5
                    else (Inr (), s5)))\<close>

section \<open>print-badge.py\<close>

definition WIDTH_MM :: int where "WIDTH_MM = 100"
definition HEIGHT_MM :: int where "HEIGHT_MM = 35"
definition GAP_MM :: int where "GAP_MM = 2"
definition FONT :: string where "FONT = ''0''"
definition FONT_WIDTH :: int where "FONT_WIDTH = 36"
definition FONT_HEIGHT :: int where "FONT_HEIGHT = 36"
definition FONT_X_MULT :: int where "FONT_X_MULT = FONT_WIDTH"
definition FONT_Y_MULT :: int where "FONT_Y_MULT = FONT_HEIGHT"
definition BADGE_GAP_MM :: int where "BADGE_GAP_MM = 5"
definition LINES_GAP_MM :: int where "LINES_GAP_MM = 1"

text \<open>The parsed arguments (\<open>dry_run_arg\<close> is the attribute \<open>dry_run\<close>).\<close>

record params =
  dry_run_arg :: bool
  yes :: bool
  num :: int
  orient :: int
  line1 :: string
  line2 :: string

text \<open>The class attributes of \<open>Badge\<close>.\<close>

definition Badge_width :: int where
  "Badge_width = WIDTH_MM * DOTS_MM"

definition x_center :: int where
  "x_center = Badge_width div 2"

definition y_first_line :: int where
  "y_first_line = BADGE_GAP_MM * DOTS_MM"

definition line_height :: int where
  "line_height = (FONT_HEIGHT div 3 + LINES_GAP_MM) * DOTS_MM"

definition y_second_line :: int where
  "y_second_line = y_first_line + line_height"

text \<open>\<open>Badge.print\<close>: the badge holds \<open>line1\<close> and \<open>line2\<close> of the arguments.\<close>

definition Badge_print :: "params \<Rightarrow> string list" where
  \<open>Badge_print prm =
     [''CLS'',
      ''TEXT '' @ str_int x_center @ '','' @ str_int y_first_line @ '',"'' @ FONT @ ''",0,''
        @ str_int FONT_X_MULT @ '','' @ str_int FONT_Y_MULT @ '',2,"'' @ line1 prm @ ''"'',
      ''TEXT '' @ str_int x_center @ '','' @ str_int y_second_line @ '',"'' @ FONT @ ''",0,''
        @ str_int FONT_X_MULT @ '','' @ str_int FONT_Y_MULT @ '',2,"'' @ line2 prm @ ''"'']\<close>

text \<open>The methods of \<open>Printer\<close>.\<close>

definition Printer_printer_status :: "world \<Rightarrow> (error + string) \<times> world" where
  "Printer_printer_status w =
     (let w1 = os_write status_probe w;
          (status, w2) = os_read 8 w1
      in (decode_ascii (take 4 (drop 1 status)), w2))"

definition Printer_can_print :: "world \<Rightarrow> (error + bool) \<times> world" where
  "Printer_can_print w =
     (case Printer_printer_status w of
        (Inl e, w1) \<Rightarrow> (Inl e, w1)
      | (Inr token, w1) \<Rightarrow> (Inr (fullmatch status_pattern token), w1))"

partial_function (option) Printer_wait_loop :: "world \<Rightarrow> ((error + unit) \<times> world) option" where
  "Printer_wait_loop w =
     (case Printer_can_print w of
        (Inl e, w1) \<Rightarrow> Some (Inl e, w1)
      | (Inr ready, w1) \<Rightarrow>
          if \<not> ready then Printer_wait_loop (sleep 1 (emit_event (Stderr ''.'') w1))
          else Some (Inr (), emit_event (Stderr NL) w1))"

declare Printer_wait_loop.simps [code]

definition Printer_wait_printer :: "params \<Rightarrow> world \<Rightarrow> ((error + unit) \<times> world) option" where
  "Printer_wait_printer prm w =
     (if dry_run_arg prm then Some (Inr (), w)
      else
        case Printer_can_print w of
          (Inl e, w1) \<Rightarrow> Some (Inl e, w1)
        | (Inr ready, w1) \<Rightarrow>
            if \<not> ready then
              Printer_wait_loop (sleep (1 / 2) (emit_event (Stderr ''...waiting printer...'') w1))
            else Some (Inr (), w1))"

definition Printer_command :: "params \<Rightarrow> string \<Rightarrow> world \<Rightarrow> world" where
  "Printer_command prm cmd w =
     (if dry_run_arg prm then emit_event (Stdout cmd) w
      else os_write (encode_utf8 CRLF) (os_write (encode_utf8 cmd) w))"

definition page_setup :: "params \<Rightarrow> world \<Rightarrow> world" where
  "page_setup prm w =
     (let w1 = Printer_command prm (''SIZE '' @ str_int WIDTH_MM @ '' mm,'' @ str_int HEIGHT_MM @ '' mm'') w;
          w2 = Printer_command prm (''GAP '' @ str_int GAP_MM @ '' mm,0 mm'') w1;
          w3 = Printer_command prm ''CODEPAGE UTF-8'' w2
      in Printer_command prm (''DIRECTION '' @ str_int (orient prm)) w3)"

text \<open>\<open>Printer.print\<close>; the loop over \<open>badge.print()\<close> is a fold.\<close>

definition Printer_print :: "params \<Rightarrow> world \<Rightarrow> ((error + unit) \<times> world) option" where
  "Printer_print prm w =
     (case Printer_wait_printer prm w of
        None \<Rightarrow> None
      | Some (Inl e, w1) \<Rightarrow> Some (Inl e, w1)
      | Some (Inr u, w1) \<Rightarrow>
          let w2 = page_setup prm w1;
              w3 = fold (Printer_command prm) (Badge_print prm) w2;
              w4 = Printer_command prm (''PRINT 1,'' @ str_int (num prm)) w3
          in Some (Inr (), emit_event (Stdout (line1 prm @ '' '' @ line2 prm)) w4))"

section \<open>Notions used to state the properties\<close>

subsection \<open>Printers and worlds to run the program on\<close>

definition dry_printer :: ThermalPrinter where
  "dry_printer =
     \<lparr>printer_path = ''/dev/usb/lp0'', dry_run = True, is_windows = False,
      command_buffer = None\<rparr>"

definition device_printer :: ThermalPrinter where
  "device_printer =
     \<lparr>printer_path = ''/dev/usb/lp0'', dry_run = False, is_windows = False,
      command_buffer = None\<rparr>"

definition spooler_printer :: ThermalPrinter where
  "spooler_printer =
     \<lparr>printer_path = ''Thermal Printer'', dry_run = False, is_windows = True,
      command_buffer = None\<rparr>"

definition quiet_world :: world where
  "quiet_world = \<lparr>trace = [], replies = [], spooler_ok = True\<rparr>"

subsection \<open>The command sequence of a configuration\<close>

text \<open>
  The lines that \<open>print_barcode\<close> logs on the dry-run printer, from a world where
  nothing has happened yet.
\<close>

fun stdout_lines :: "event list \<Rightarrow> string list" where
  "stdout_lines [] = []"
| "stdout_lines (Stdout l # es) = l # stdout_lines es"
| "stdout_lines (e # es) = stdout_lines es"

definition emitted :: "BarcodeConfig \<Rightarrow> string list" where
  "emitted config =
     (case print_barcode config (dry_printer, quiet_world) of
        Some (Inr u, (p, w)) \<Rightarrow> stdout_lines (trace w)
      | Some (Inl e, s) \<Rightarrow> []
      | None \<Rightarrow> [])"

text \<open>
  What \<open>print_barcode\<close> does with a list of lines once the printer is ready: one call
  of \<open>command\<close> for each line, in order, and on Windows the flush of the buffer.
\<close>

definition send_all :: "string list \<Rightarrow> state \<Rightarrow> (error + unit) \<times> state" where
  "send_all cmds s =
     (let s' = fold command cmds s
      in if is_windows (fst s') \<and> \<not> dry_run (fst s') \<and> command_buffer (fst s') \<noteq> None
         then flush_commands s'
         else (Inr (), s'))"

text \<open>The two f-strings of \<open>print_barcode\<close>, and the lines it issues, written out.\<close>

definition TEXT_line :: "int \<Rightarrow> int \<Rightarrow> int \<Rightarrow> string \<Rightarrow> string" where
  \<open>TEXT_line x y pt txt =
     ''TEXT '' @ str_int x @ '','' @ str_int y @ '',"0",0,'' @ str_int pt @ '',''
     @ str_int pt @ '',2,"'' @ txt @ ''"''\<close>

definition BARCODE_line :: "int \<Rightarrow> int \<Rightarrow> int \<Rightarrow> int \<Rightarrow> string \<Rightarrow> string" where
  \<open>BARCODE_line x y height narrow data =
     ''BARCODE '' @ str_int x @ '','' @ str_int y @ '',"128",'' @ str_int height
     @ '',1,0,'' @ str_int narrow @ '',2,"'' @ data @ ''"''\<close>

definition preamble :: "BarcodeConfig \<Rightarrow> string list" where
  "preamble config =
     [''SIZE '' @ str_int (width_mm config) @ '' mm,'' @ str_int (height_mm config) @ '' mm'',
      ''GAP '' @ str_int (gap_mm config) @ '' mm,0 mm'',
      ''CODEPAGE UTF-8'',
      ''DIRECTION '' @ str_int (orientation config),
      ''CLS'']"

definition center_x :: "BarcodeConfig \<Rightarrow> int" where
  "center_x config = (width_mm config * DOTS_MM) div 2"

definition y_top :: int where
  "y_top = 10"

definition y_barcode :: "BarcodeConfig \<Rightarrow> int" where
  "y_barcode config =
     (if top_text config \<noteq> [] then y_top + (font_size config + 10) else y_top)"

definition y_bottom :: "BarcodeConfig \<Rightarrow> int" where
  "y_bottom config =
     (if barcode_data config \<noteq> [] then y_barcode config + (barcode_height config * DOTS_MM + 20)
      else y_barcode config)"

definition drawing :: "BarcodeConfig \<Rightarrow> string list" where
  "drawing config =
     (if top_text config \<noteq> [] then
        [TEXT_line (center_x config) y_top (font_size config) (top_text config)]
      else [])
     @ (if barcode_data config \<noteq> [] then
          [BARCODE_line (center_x config) (y_barcode config) (barcode_height config * DOTS_MM)
             (barcode_width config) (barcode_data config)]
        else [])
     @ (if bottom_text config \<noteq> [] then
          [TEXT_line (center_x config) (y_bottom config) (font_size config) (bottom_text config)]
        else [])"

definition PRINT_line :: "BarcodeConfig \<Rightarrow> string" where
  "PRINT_line config = ''PRINT 1,'' @ str_int (num_copies config)"

text \<open>A line is a drawing command when it starts with the keyword and a space.\<close>

definition is_TEXT :: "string \<Rightarrow> bool" where
  "is_TEXT c = (take 5 c = ''TEXT '')"

definition is_BARCODE :: "string \<Rightarrow> bool" where
  "is_BARCODE c = (take 8 c = ''BARCODE '')"

definition is_PRINT :: "string \<Rightarrow> bool" where
  "is_PRINT c = (take 6 c = ''PRINT '')"

subsection \<open>What the transports see\<close>

text \<open>The events of one status query that the device answers with \<open>r\<close>.\<close>

definition query_events :: "bytes \<Rightarrow> event list" where
  "query_events r = [OsWrite status_probe, OsRead (take 8 r)]"

text \<open>The events of the lines on the device file, and the job of the spooler.\<close>

definition wire_events :: "string list \<Rightarrow> event list" where
  "wire_events cmds =
     concat (map (\<lambda>c. [OsWrite (encode_utf8 c), OsWrite (encode_utf8 CRLF)]) cmds)"

definition spooler_job :: "string list \<Rightarrow> event" where
  "spooler_job cmds = WritePrinter (encode_utf8 (concat (map (\<lambda>c. c @ CRLF) cmds)))"

subsection \<open>Status replies\<close>

text \<open>
  The token that \<open>printer_status\<close> takes from a reply \<open>r\<close> of the device, and what
  \<open>can_print\<close> makes of it: ready, busy (not ready), or an exception.
\<close>

definition reply_token :: "bytes \<Rightarrow> error + string" where
  "reply_token r = decode_ascii (take 4 (drop 1 (take 8 r)))"

definition reply_ready :: "bytes \<Rightarrow> bool" where
  "reply_ready r = (case reply_token r of Inl e \<Rightarrow> False | Inr t \<Rightarrow> fullmatch status_pattern t)"

definition reply_busy :: "bytes \<Rightarrow> bool" where
  "reply_busy r = (case reply_token r of Inl e \<Rightarrow> False | Inr t \<Rightarrow> \<not> fullmatch status_pattern t)"

text \<open>
  The events of \<open>wait_printer\<close> on a device that answers busy to the queries of
  \<open>busy\<close> and then ready.
\<close>

definition waiting_events :: "bytes list \<Rightarrow> bytes \<Rightarrow> event list" where
  "waiting_events busy ready =
     (case busy of
        [] \<Rightarrow> query_events ready
      | b # bs \<Rightarrow>
          query_events b @ [Stderr (''Waiting for printer...'' @ NL), Sleep (1 / 2)]
          @ concat (map (\<lambda>r. query_events r @ [Sleep 1]) bs)
          @ query_events ready)"

fun status_queries :: "event list \<Rightarrow> nat" where
  "status_queries [] = 0"
| "status_queries (OsRead r # es) = Suc (status_queries es)"
| "status_queries (e # es) = status_queries es"

fun sleeps :: "event list \<Rightarrow> real list" where
  "sleeps [] = []"
| "sleeps (Sleep t # es) = t # sleeps es"
| "sleeps (e # es) = sleeps es"

subsection \<open>A configuration to run\<close>

text \<open>The label of the first example of example\_usage.py, with a shorter top line.\<close>

definition example_config :: BarcodeConfig where
  "example_config =
     BarcodeConfig_init\<lparr>barcode_data := ''123456789012'', top_text := ''PRODUCT'',
       bottom_text := ''Made in USA'', width_mm := 100, height_mm := 50\<rparr>"

section \<open>Lemmas on the model\<close>

subsection \<open>The status pattern\<close>

lemma fullmatch_Nil: "fullmatch [] s = (s = [])"
  by (cases s) simp_all

lemma fullmatch_Cons:
  "fullmatch (a # as) s = (s \<noteq> [] \<and> atom_matches a (hd s) \<and> fullmatch as (tl s))"
  by (cases s) simp_all

lemma fullmatch_status_pattern:
  "fullmatch status_pattern token =
     (token \<noteq> [] \<and> hd token \<in> set ''@BCFPW'' \<and> tl token = ''@@@'')"
proof (cases token)
  case Nil
  then show ?thesis by (simp add: status_pattern_def)
next
  case (Cons c cs)
  have "fullmatch [Lit CHR ''@'', Lit CHR ''@'', Lit CHR ''@''] cs = (cs = ''@@@'')"
    by (auto simp add: fullmatch_Cons fullmatch_Nil neq_Nil_conv)
  with Cons show ?thesis by (simp add: status_pattern_def)
qed

subsection \<open>Sending lines, and the print operation\<close>

declare print_barcode.simps [simp del]

lemma stdout_lines_map [simp]: "stdout_lines (map Stdout cmds) = cmds"
  by (induction cmds) simp_all

lemma stdout_lines_append [simp]:
  "stdout_lines (xs @ ys) = stdout_lines xs @ stdout_lines ys"
  by (induction xs rule: stdout_lines.induct) simp_all

lemma fold_command_dry:
  "dry_run p \<Longrightarrow>
   fold command cmds (p, w) = (p, w\<lparr>trace := trace w @ map Stdout cmds\<rparr>)"
  by (induction cmds arbitrary: w) (simp_all add: emit_event_def)

lemma fold_command_device:
  "\<not> dry_run p \<Longrightarrow> \<not> is_windows p \<Longrightarrow>
   fold command cmds (p, w) = (p, w\<lparr>trace := trace w @ wire_events cmds\<rparr>)"
  by (induction cmds arbitrary: w)
     (simp_all add: wire_events_def os_write_def emit_event_def)

lemma fold_command_spooler:
  "\<not> dry_run p \<Longrightarrow> is_windows p \<Longrightarrow> cmds \<noteq> [] \<Longrightarrow>
   fold command cmds (p, w) =
     (p\<lparr>command_buffer :=
          Some ((case command_buffer p of None \<Rightarrow> [] | Some b \<Rightarrow> b) @ map (\<lambda>c. c @ CRLF) cmds)\<rparr>, w)"
proof (induction cmds arbitrary: p)
  case Nil
  then show ?case by simp
next
  case (Cons c cs)
  show ?case
  proof (cases "cs = []")
    case True
    with Cons.prems show ?thesis by (simp add: Let_def)
  next
    case False
    with Cons show ?thesis by (simp add: Let_def)
  qed
qed

lemma setup_page_fold:
  "setup_page config (p, w) = fold command (preamble config) (p, w)"
  by (simp add: setup_page_def preamble_def Let_def)

lemma print_barcode_ready:
  assumes "wait_printer p w = Some (Inr u, w1)"
  shows "print_barcode config (p, w) =
       Some (send_all (preamble config @ drawing config @ [PRINT_line config]) (p, w1))"
proof -
  consider (a) "top_text config = []" "barcode_data config = []" "bottom_text config = []"
    | (b) "top_text config = []" "barcode_data config = []" "bottom_text config \<noteq> []"
    | (c) "top_text config = []" "barcode_data config \<noteq> []" "bottom_text config = []"
    | (d) "top_text config = []" "barcode_data config \<noteq> []" "bottom_text config \<noteq> []"
    | (e) "top_text config \<noteq> []" "barcode_data config = []" "bottom_text config = []"
    | (f) "top_text config \<noteq> []" "barcode_data config = []" "bottom_text config \<noteq> []"
    | (g) "top_text config \<noteq> []" "barcode_data config \<noteq> []" "bottom_text config = []"
    | (h) "top_text config \<noteq> []" "barcode_data config \<noteq> []" "bottom_text config \<noteq> []"
    by blast
  then show ?thesis
    using assms
    by cases
      (simp_all add: print_barcode.simps setup_page_fold send_all_def drawing_def PRINT_line_def TEXT_line_def
        BARCODE_line_def center_x_def y_top_def y_barcode_def y_bottom_def Let_def
        del: command.simps not_None_eq split del: if_split cong: if_cong)
qed

lemma print_barcode_eq:
  "print_barcode config (p, w) =
     (case wait_printer p w of
        None \<Rightarrow> None
      | Some (Inl e, w1) \<Rightarrow> Some (Inl e, (p, w1))
      | Some (Inr u, w1) \<Rightarrow>
          Some (send_all (preamble config @ drawing config @ [PRINT_line config]) (p, w1)))"
proof (cases "wait_printer p w")
  case None
  then show ?thesis by (simp add: print_barcode.simps)
next
  case (Some r)
  obtain res w1 where r: "r = (res, w1)" by (cases r)
  show ?thesis
  proof (cases res)
    case (Inl e)
    with Some r show ?thesis by (simp add: print_barcode.simps)
  next
    case (Inr u)
    with Some r print_barcode_ready [of p w u w1 config] show ?thesis by simp
  qed
qed


lemma send_all_dry:
  "dry_run p \<Longrightarrow>
   send_all cmds (p, w) = (Inr (), (p, w\<lparr>trace := trace w @ map Stdout cmds\<rparr>))"
  by (simp add: send_all_def fold_command_dry)

lemma send_all_device:
  "\<not> dry_run p \<Longrightarrow> \<not> is_windows p \<Longrightarrow>
   send_all cmds (p, w) = (Inr (), (p, w\<lparr>trace := trace w @ wire_events cmds\<rparr>))"
  by (simp add: send_all_def fold_command_device)

lemma send_all_spooler:
  assumes "\<not> dry_run p" and "is_windows p" and "cmds \<noteq> []"
    and "command_buffer p = None \<or> command_buffer p = Some []"
  shows "send_all cmds (p, w) =
     (if spooler_ok w then
        (Inr (), (p\<lparr>command_buffer := Some []\<rparr>, w\<lparr>trace := trace w @ [spooler_job cmds]\<rparr>))
      else
        (Inl SpoolerError, (p\<lparr>command_buffer := Some (map (\<lambda>c. c @ CRLF) cmds)\<rparr>, w)))"
  using assms
  by (auto simp add: send_all_def fold_command_spooler spooler_job_def emit_event_def)

lemma wait_printer_dry: "dry_run p \<Longrightarrow> wait_printer p w = Some (Inr (), w)"
  by (simp add: wait_printer_def)

lemma wait_printer_windows:
  "\<not> dry_run p \<Longrightarrow> is_windows p \<Longrightarrow> wait_printer p w = Some (Inr (), w)"
  by (simp add: wait_printer_def can_print_def)

lemma print_barcode_dry:
  "dry_run p \<Longrightarrow>
   print_barcode config (p, w) =
     Some (Inr (), (p, w\<lparr>trace := trace w
        @ map Stdout (preamble config @ drawing config @ [PRINT_line config])\<rparr>))"
  by (simp only: print_barcode_ready [OF wait_printer_dry] send_all_dry)

lemma emitted_eq:
  "emitted config = preamble config @ drawing config @ [PRINT_line config]"
proof -
  have d: "dry_run dry_printer" by (simp add: dry_printer_def)
  show ?thesis
    unfolding emitted_def print_barcode_dry [OF d]
    by (simp add: quiet_world_def)
qed

lemma can_print_device:
  assumes "\<not> dry_run p" and "\<not> is_windows p" and "replies w = r # rs"
  shows "can_print p w =
     ((case reply_token r of Inl e \<Rightarrow> Inl e | Inr t \<Rightarrow> Inr (fullmatch status_pattern t)),
      w\<lparr>trace := trace w @ query_events r, replies := rs\<rparr>)"
  using assms
  by (simp add: can_print_def printer_status_def os_read_def os_write_def emit_event_def
      reply_token_def query_events_def Let_def split: sum.split)

lemma can_print_exhausted:
  assumes "\<not> dry_run p" and "\<not> is_windows p" and "replies w = []"
  shows "can_print p w = (Inr False, w\<lparr>trace := trace w @ query_events []\<rparr>)"
  using assms
  by (simp add: can_print_def printer_status_def os_read_def os_write_def emit_event_def
      query_events_def decode_ascii_def status_pattern_def Let_def)

lemma can_print_busy:
  assumes "\<not> dry_run p" and "\<not> is_windows p" and "replies w = r # rs" and "reply_busy r"
  shows "can_print p w = (Inr False, w\<lparr>trace := trace w @ query_events r, replies := rs\<rparr>)"
  using assms(4) unfolding can_print_device [OF assms(1-3)]
  by (simp add: reply_busy_def split: sum.splits)

lemma can_print_ready:
  assumes "\<not> dry_run p" and "\<not> is_windows p" and "replies w = r # rs" and "reply_ready r"
  shows "can_print p w = (Inr True, w\<lparr>trace := trace w @ query_events r, replies := rs\<rparr>)"
  using assms(4) unfolding can_print_device [OF assms(1-3)]
  by (simp add: reply_ready_def split: sum.splits)

lemma wait_loop_busy_then_ready:
  assumes "\<not> dry_run p" and "\<not> is_windows p"
  shows "list_all reply_busy bs \<Longrightarrow> reply_ready ready \<Longrightarrow> replies w = bs @ ready # rest \<Longrightarrow>
     wait_loop p w =
       Some (Inr (), w\<lparr>trace := trace w @ concat (map (\<lambda>r. query_events r @ [Sleep 1]) bs)
                              @ query_events ready,
                       replies := rest\<rparr>)"
proof (induction bs arbitrary: w)
  case Nil
  then have "can_print p w =
      (Inr True, w\<lparr>trace := trace w @ query_events ready, replies := rest\<rparr>)"
    using can_print_ready [OF assms] by simp
  then show ?case by (subst wait_loop.simps) simp
next
  case (Cons b bs)
  let ?w1 = "w\<lparr>trace := trace w @ query_events b, replies := bs @ ready # rest\<rparr>"
  have c: "can_print p w = (Inr False, ?w1)"
    using can_print_busy [OF assms, of w b "bs @ ready # rest"] Cons.prems by simp
  have "wait_loop p w = wait_loop p (sleep 1 ?w1)"
    by (subst wait_loop.simps) (simp add: c)
  also have "\<dots> = Some (Inr (), (sleep 1 ?w1)\<lparr>trace := trace (sleep 1 ?w1)
        @ concat (map (\<lambda>r. query_events r @ [Sleep 1]) bs) @ query_events ready,
        replies := rest\<rparr>)"
    using Cons.prems by (intro Cons.IH) (simp_all add: sleep_def emit_event_def)
  finally show ?case by (simp add: sleep_def emit_event_def)
qed

lemma wait_printer_busy_then_ready:
  assumes "\<not> dry_run p" and "\<not> is_windows p"
    and "list_all reply_busy busy" and "reply_ready ready"
    and "replies w = busy @ ready # rest"
  shows "wait_printer p w =
       Some (Inr (), w\<lparr>trace := trace w @ waiting_events busy ready, replies := rest\<rparr>)"
proof (cases busy)
  case Nil
  with assms can_print_ready [OF assms(1,2), of w ready rest] show ?thesis
    by (simp add: wait_printer_def waiting_events_def)
next
  case (Cons b bs)
  let ?w1 = "w\<lparr>trace := trace w @ query_events b, replies := bs @ ready # rest\<rparr>"
  let ?w2 = "sleep (1 / 2) (emit_event (Stderr (''Waiting for printer...'' @ NL)) ?w1)"
  have c: "can_print p w = (Inr False, ?w1)"
    using can_print_busy [OF assms(1,2), of w b "bs @ ready # rest"] assms Cons by simp
  have "wait_printer p w = wait_loop p ?w2"
    using assms(1) by (simp add: wait_printer_def c)
  also have "\<dots> = Some (Inr (), ?w2\<lparr>trace := trace ?w2
        @ concat (map (\<lambda>r. query_events r @ [Sleep 1]) bs) @ query_events ready,
        replies := rest\<rparr>)"
    using assms Cons
    by (intro wait_loop_busy_then_ready) (simp_all add: sleep_def emit_event_def)
  finally show ?thesis
    by (simp add: Cons waiting_events_def sleep_def emit_event_def)
qed

subsection \<open>The lines of a label\<close>

lemmas format_defs = preamble_def drawing_def PRINT_line_def TEXT_line_def BARCODE_line_def
  center_x_def y_top_def y_barcode_def y_bottom_def DOTS_MM_def

lemmas str_int_eval = str_int_def digits.simps digit_char_def

lemma emitted_example:
  "emitted example_config =
     [''SIZE 100 mm,50 mm'', ''GAP 2 mm,0 mm'', ''CODEPAGE UTF-8'', ''DIRECTION 1'', ''CLS'',
      TEXT_line 400 10 24 ''PRODUCT'',
      BARCODE_line 400 44 120 2 ''123456789012'',
      TEXT_line 400 184 24 ''Made in USA'',
      ''PRINT 1,1'']"
  by (simp add: emitted_eq example_config_def BarcodeConfig_init_def format_defs str_int_eval)

lemma preamble_not_drawing:
  "c \<in> set (preamble config) \<Longrightarrow> \<not> is_TEXT c \<and> \<not> is_BARCODE c \<and> \<not> is_PRINT c"
  by (auto simp add: preamble_def is_TEXT_def is_BARCODE_def is_PRINT_def)

lemma is_TEXT_TEXT_line [simp]: "is_TEXT (TEXT_line x y pt txt)"
  by (simp add: is_TEXT_def TEXT_line_def)

lemma is_BARCODE_BARCODE_line [simp]: "is_BARCODE (BARCODE_line x y h n d)"
  by (simp add: is_BARCODE_def BARCODE_line_def)

lemma TEXT_line_others [simp]:
  "\<not> is_BARCODE (TEXT_line x y pt txt)" "\<not> is_PRINT (TEXT_line x y pt txt)"
  by (simp_all add: is_BARCODE_def is_PRINT_def TEXT_line_def)

lemma BARCODE_line_others [simp]:
  "\<not> is_TEXT (BARCODE_line x y h n d)" "\<not> is_PRINT (BARCODE_line x y h n d)"
  by (simp_all add: is_TEXT_def is_PRINT_def BARCODE_line_def)

lemma PRINT_line_kind [simp]:
  "is_PRINT (PRINT_line config)" "\<not> is_TEXT (PRINT_line config)"
  "\<not> is_BARCODE (PRINT_line config)"
  by (simp_all add: is_TEXT_def is_PRINT_def is_BARCODE_def PRINT_line_def)

lemma length_preamble [simp]: "length (preamble config) = 5"
  by (simp add: preamble_def)

lemma filter_preamble [simp]:
  "filter is_TEXT (preamble config) = []" "filter is_BARCODE (preamble config) = []"
  "filter is_PRINT (preamble config) = []"
  using preamble_not_drawing [of _ config] by (auto simp add: filter_empty_conv)

lemma drawing_kinds:
  "c \<in> set (drawing config) \<Longrightarrow> (is_TEXT c \<or> is_BARCODE c) \<and> \<not> is_PRINT c"
  by (auto simp add: drawing_def split: if_splits)

lemma list_ex_filter: "list_ex P xs \<longleftrightarrow> filter P xs \<noteq> []"
  by (induction xs) auto

lemma dry_printer_dry [simp]: "dry_run dry_printer"
  by (simp add: dry_printer_def)

lemma print_barcode_dry_quiet:
  "print_barcode config (dry_printer, quiet_world) =
     Some (Inr (), (dry_printer, quiet_world\<lparr>trace := map Stdout (emitted config)\<rparr>))"
  by (simp add: print_barcode_dry emitted_eq quiet_world_def)

subsection \<open>The print operation on each transport\<close>

lemma send_all_emitted:
  "print_barcode config (p, w) =
     (case wait_printer p w of
        None \<Rightarrow> None
      | Some (Inl e, w1) \<Rightarrow> Some (Inl e, (p, w1))
      | Some (Inr u, w1) \<Rightarrow> Some (send_all (emitted config) (p, w1)))"
  unfolding emitted_eq by (rule print_barcode_eq)

lemma print_barcode_dry_emitted:
  "dry_run p \<Longrightarrow>
   print_barcode config (p, w) =
     Some (Inr (), (p, w\<lparr>trace := trace w @ map Stdout (emitted config)\<rparr>))"
  unfolding emitted_eq by (rule print_barcode_dry)

lemma print_barcode_device_ready:
  assumes "\<not> dry_run p" and "\<not> is_windows p" and "replies w = r # rs" and "reply_ready r"
  shows "print_barcode config (p, w) =
     Some (Inr (), (p, w\<lparr>trace := trace w @ query_events r @ wire_events (emitted config),
                          replies := rs\<rparr>))"
proof -
  have "wait_printer p w =
      Some (Inr (), w\<lparr>trace := trace w @ waiting_events [] r, replies := rs\<rparr>)"
    using assms by (intro wait_printer_busy_then_ready) simp_all
  then show ?thesis
    using assms(1,2)
    by (simp add: send_all_emitted send_all_device waiting_events_def)
qed

lemma print_barcode_spooler:
  assumes "\<not> dry_run p" and "is_windows p" and "spooler_ok w"
    and "command_buffer p = None \<or> command_buffer p = Some []"
  shows "print_barcode config (p, w) =
     Some (Inr (), (p\<lparr>command_buffer := Some []\<rparr>,
                    w\<lparr>trace := trace w @ [spooler_job (emitted config)]\<rparr>))"
proof -
  have ne: "emitted config \<noteq> []" by (simp add: emitted_eq)
  show ?thesis
    using assms(3)
    by (simp add: send_all_emitted wait_printer_windows [OF assms(1,2)]
        send_all_spooler [OF assms(1,2) ne assms(4)])
qed

lemma ready_reply: "reply_ready [0, 0x40, 0x40, 0x40, 0x40, 0, 0, 0]"
  by (simp add: reply_ready_def reply_token_def decode_ascii_def char_of_eq_iff status_pattern_def)

subsection \<open>Waiting for the printer\<close>

lemma status_queries_append [simp]:
  "status_queries (xs @ ys) = status_queries xs + status_queries ys"
  by (induction xs rule: status_queries.induct) simp_all

lemma sleeps_append [simp]: "sleeps (xs @ ys) = sleeps xs @ sleeps ys"
  by (induction xs rule: sleeps.induct) simp_all

lemma query_events_counts [simp]:
  "status_queries (query_events r) = 1" "sleeps (query_events r) = []"
  by (simp_all add: query_events_def)

lemma loop_events_counts [simp]:
  "status_queries (concat (map (\<lambda>r. query_events r @ [Sleep 1]) bs)) = length bs"
  "sleeps (concat (map (\<lambda>r. query_events r @ [Sleep 1]) bs)) = replicate (length bs) 1"
  by (induction bs) simp_all

lemma waiting_events_counts:
  "status_queries (waiting_events busy ready) = length busy + 1"
  "sleeps (waiting_events busy ready) =
     (case busy of [] \<Rightarrow> [] | b # bs \<Rightarrow> (1 / 2) # replicate (length bs) 1)"
  by (simp_all add: waiting_events_def split: list.split)

lemma can_print_never_ready:
  assumes "\<not> dry_run p" and "\<not> is_windows p" and "list_all reply_busy (replies w)"
  shows "\<exists>w1. can_print p w = (Inr False, w1) \<and> list_all reply_busy (replies w1)"
proof (cases "replies w")
  case Nil
  with can_print_exhausted [OF assms(1,2)] show ?thesis by simp
next
  case (Cons r rs)
  with assms(3) have "reply_busy r" and "list_all reply_busy rs" by simp_all
  with can_print_busy [OF assms(1,2) Cons] show ?thesis by simp
qed

lemma wait_loop_never_ready:
  assumes "\<not> dry_run p" and "\<not> is_windows p" and "list_all reply_busy (replies w)"
  shows "wait_loop p w = None"
proof (rule ccontr)
  assume "wait_loop p w \<noteq> None"
  then obtain y where y: "wait_loop p w = Some y" by auto
  have "\<not> (\<not> dry_run p \<and> \<not> is_windows p \<and> list_all reply_busy (replies w))"
  proof (rule wait_loop.raw_induct
      [where P = "\<lambda>p w y. \<not> (\<not> dry_run p \<and> \<not> is_windows p \<and> list_all reply_busy (replies w))",
       OF _ y])
    fix loop :: "ThermalPrinter \<Rightarrow> world \<Rightarrow> ((error + unit) \<times> world) option"
    fix q v z
    assume IH: "\<And>q v z. loop q v = Some z \<Longrightarrow>
        \<not> (\<not> dry_run q \<and> \<not> is_windows q \<and> list_all reply_busy (replies v))"
    assume body: "(case can_print q v of
        (Inl e, w1) \<Rightarrow> Some (Inl e, w1)
      | (Inr ready, w1) \<Rightarrow>
          if \<not> ready then loop q (sleep 1 w1) else Some (Inr (), w1)) = Some z"
    show "\<not> (\<not> dry_run q \<and> \<not> is_windows q \<and> list_all reply_busy (replies v))"
    proof
      assume a: "\<not> dry_run q \<and> \<not> is_windows q \<and> list_all reply_busy (replies v)"
      then obtain w1 where c: "can_print q v = (Inr False, w1)"
        and b: "list_all reply_busy (replies w1)"
        using can_print_never_ready by blast
      from body c have "loop q (sleep 1 w1) = Some z" by simp
      from IH [OF this] a b show False by (simp add: sleep_def emit_event_def)
    qed
  qed
  with assms show False by blast
qed

lemma wait_printer_never_ready:
  assumes "\<not> dry_run p" and "\<not> is_windows p" and "list_all reply_busy (replies w)"
  shows "wait_printer p w = None"
proof -
  obtain w1 where c: "can_print p w = (Inr False, w1)"
    and b: "list_all reply_busy (replies w1)"
    using can_print_never_ready [OF assms] by blast
  have "wait_printer p w =
      wait_loop p (sleep (1 / 2) (emit_event (Stderr (''Waiting for printer...'' @ NL)) w1))"
    using assms(1) by (simp add: wait_printer_def c)
  also have "\<dots> = None"
    using assms(1,2) b by (intro wait_loop_never_ready) (simp_all add: sleep_def emit_event_def)
  finally show ?thesis .
qed

lemma busy_replies:
  "reply_busy [0, 0x45, 0x40, 0x40, 0x40, 0, 0, 0]" "reply_busy [0, 0x40]" "reply_busy []"
  by (simp_all add: reply_busy_def reply_token_def decode_ascii_def char_of_eq_iff
      status_pattern_def)

lemma device_printer_kind [simp]:
  "\<not> dry_run device_printer" "\<not> is_windows device_printer"
  by (simp_all add: device_printer_def)

subsection \<open>Reading the status\<close>

lemma printer_status_device:
  assumes "\<not> dry_run p" and "\<not> is_windows p" and "replies w = r # rs"
  shows "printer_status p w =
     (reply_token r, w\<lparr>trace := trace w @ query_events r, replies := rs\<rparr>)"
  using assms
  by (simp add: printer_status_def os_read_def os_write_def emit_event_def
      reply_token_def query_events_def Let_def)

lemma reply_token_ascii:
  "list_all (\<lambda>b. b < 128) (take 4 (drop 1 (take 8 r))) \<Longrightarrow>
   reply_token r = Inr (map (\<lambda>b. char_of (unat b)) (take 4 (drop 1 (take 8 r))))"
  by (simp add: reply_token_def decode_ascii_def)

lemma reply_token_not_ascii:
  "\<not> list_all (\<lambda>b. b < 128) (take 4 (drop 1 (take 8 r))) \<Longrightarrow>
   reply_token r = Inl UnicodeDecodeError"
  by (simp add: reply_token_def decode_ascii_def)

lemma fullmatch_status_length: "fullmatch status_pattern t \<Longrightarrow> length t = 4"
  by (cases t) (auto simp add: fullmatch_status_pattern)

lemma short_reply_busy:
  assumes "list_all (\<lambda>b. b < 128) (take 4 (drop 1 (take 8 r)))" and "length r < 5"
  shows "reply_busy r"
proof -
  let ?t = "map (\<lambda>b. char_of (unat b)) (take 4 (drop 1 (take 8 r)))"
  have "length ?t < 4" using assms(2) by simp
  then have "\<not> fullmatch status_pattern ?t"
    using fullmatch_status_length [of ?t] by auto
  then show ?thesis
    by (simp add: reply_busy_def reply_token_ascii [OF assms(1)])
qed


lemma wait_printer_error:
  assumes "\<not> dry_run p" and "\<not> is_windows p" and "replies w = r # rs"
    and "reply_token r = Inl e"
  shows "can_print p w = (Inl e, w\<lparr>trace := trace w @ query_events r, replies := rs\<rparr>)"
    and "wait_loop p w = Some (Inl e, w\<lparr>trace := trace w @ query_events r, replies := rs\<rparr>)"
    and "wait_printer p w = Some (Inl e, w\<lparr>trace := trace w @ query_events r, replies := rs\<rparr>)"
    and "print_barcode config (p, w) =
           Some (Inl e, (p, w\<lparr>trace := trace w @ query_events r, replies := rs\<rparr>))"
proof -
  show c: "can_print p w = (Inl e, w\<lparr>trace := trace w @ query_events r, replies := rs\<rparr>)"
    using assms(4) by (simp add: can_print_device [OF assms(1-3)])
  show "wait_loop p w = Some (Inl e, w\<lparr>trace := trace w @ query_events r, replies := rs\<rparr>)"
    by (subst wait_loop.simps) (simp add: c)
  show wp: "wait_printer p w =
      Some (Inl e, w\<lparr>trace := trace w @ query_events r, replies := rs\<rparr>)"
    using assms(1) by (simp add: wait_printer_def c)
  show "print_barcode config (p, w) =
           Some (Inl e, (p, w\<lparr>trace := trace w @ query_events r, replies := rs\<rparr>))"
    by (simp add: send_all_emitted wp)
qed

subsection \<open>The badge printer\<close>

lemmas badge_defs = WIDTH_MM_def HEIGHT_MM_def GAP_MM_def FONT_def FONT_WIDTH_def
  FONT_HEIGHT_def FONT_X_MULT_def FONT_Y_MULT_def BADGE_GAP_MM_def LINES_GAP_MM_def
  Badge_width_def x_center_def y_first_line_def line_height_def y_second_line_def DOTS_MM_def

lemma Badge_print_lines:
  \<open>Badge_print prm =
     [''CLS'',
      ''TEXT 400,40,"0",0,36,36,2,"'' @ line1 prm @ ''"'',
      ''TEXT 400,144,"0",0,36,36,2,"'' @ line2 prm @ ''"'']\<close>
  by (simp add: Badge_print_def badge_defs str_int_eval)

lemma page_setup_fold:
  "page_setup prm w =
     fold (Printer_command prm)
       [''SIZE 100 mm,35 mm'', ''GAP 2 mm,0 mm'', ''CODEPAGE UTF-8'',
        ''DIRECTION '' @ str_int (orient prm)] w"
  by (simp add: page_setup_def badge_defs str_int_eval Let_def)

lemma fold_Printer_command_dry:
  "dry_run_arg prm \<Longrightarrow>
   fold (Printer_command prm) cmds w = w\<lparr>trace := trace w @ map Stdout cmds\<rparr>"
  by (induction cmds arbitrary: w) (simp_all add: Printer_command_def emit_event_def)

lemma fold_Printer_command_device:
  "\<not> dry_run_arg prm \<Longrightarrow>
   fold (Printer_command prm) cmds w = w\<lparr>trace := trace w @ wire_events cmds\<rparr>"
  by (induction cmds arbitrary: w)
     (simp_all add: Printer_command_def wire_events_def os_write_def emit_event_def)

lemma Printer_wait_printer_ready:
  assumes "\<not> dry_run_arg prm" and "replies w = r # rs" and "reply_ready r"
  shows "Printer_wait_printer prm w =
     Some (Inr (), w\<lparr>trace := trace w @ query_events r, replies := rs\<rparr>)"
proof -
  have "Printer_printer_status w =
      (reply_token r, w\<lparr>trace := trace w @ query_events r, replies := rs\<rparr>)"
    using assms(2)
    by (simp add: Printer_printer_status_def os_read_def os_write_def emit_event_def
        reply_token_def query_events_def Let_def)
  then have "Printer_can_print w =
      (Inr True, w\<lparr>trace := trace w @ query_events r, replies := rs\<rparr>)"
    using assms(3) by (simp add: Printer_can_print_def reply_ready_def split: sum.splits)
  then show ?thesis using assms(1) by (simp add: Printer_wait_printer_def)
qed

section \<open>The properties\<close>

text \<open>
  C2. \<open>can_print\<close> reports ready for a status token exactly when the token has a
  first character among \<open>@ B C F P W\<close> followed by three \<open>@\<close>. The tokens
  \<open>@@@@\<close>, \<open>B@@@\<close>, \<open>C@@@\<close>, \<open>F@@@\<close>, \<open>P@@@\<close> and \<open>W@@@\<close> are ready;
  \<open>E@@@\<close>, \<open>@B@@\<close> and the empty token are not.
\<close>

theorem can_print_iff_status_pattern:
  assumes "printer_status p w = (Inr token, w1)"
  shows "can_print p w =
           (Inr (token \<noteq> [] \<and> hd token \<in> set ''@BCFPW'' \<and> tl token = ''@@@''), w1)
         \<and> (token \<in> {''@@@@'', ''B@@@'', ''C@@@'', ''F@@@'', ''P@@@'', ''W@@@''}
              \<longrightarrow> can_print p w = (Inr True, w1))
         \<and> (token \<in> {''E@@@'', ''@B@@'', ''''} \<longrightarrow> can_print p w = (Inr False, w1))"
proof -
  have c: "can_print p w = (Inr (fullmatch status_pattern token), w1)"
  proof (cases "dry_run p \<or> is_windows p")
    case True
    with assms have "token = ''@@@@''" and "w1 = w"
      by (auto simp add: printer_status_def split: if_splits)
    with True show ?thesis
      by (auto simp add: can_print_def fullmatch_status_pattern)
  next
    case False
    with assms show ?thesis by (simp add: can_print_def)
  qed
  show ?thesis unfolding c fullmatch_status_pattern by auto
qed

theorem can_print_iff_status_pattern_witness:
  "can_print device_printer (quiet_world\<lparr>replies := [[0, 0x42, 0x40, 0x40, 0x40, 0, 0, 0]]\<rparr>) =
     (Inr True,
      quiet_world\<lparr>trace := [OsWrite status_probe, OsRead [0, 0x42, 0x40, 0x40, 0x40, 0, 0, 0]]\<rparr>)"
proof -
  let ?w = "quiet_world\<lparr>replies := [[0, 0x42, 0x40, 0x40, 0x40, 0, 0, 0]]\<rparr>"
  let ?w1 = "quiet_world\<lparr>trace := [OsWrite status_probe, OsRead [0, 0x42, 0x40, 0x40, 0x40, 0, 0, 0]]\<rparr>"
  have s: "printer_status device_printer ?w = (Inr ''B@@@'', ?w1)"
    by (simp add: printer_status_def device_printer_def os_read_def os_write_def emit_event_def
        quiet_world_def decode_ascii_def char_of_eq_iff)
  from can_print_iff_status_pattern [OF s] show ?thesis by simp
qed

text \<open>
  C1. In the command sequence of one print operation, \<open>CLS\<close> is the fifth line and
  every \<open>TEXT\<close> and \<open>BARCODE\<close> line comes after it; the last line is the
  \<open>PRINT\<close> command, and no other line is one. On every transport the operation
  waits for the printer and then sends exactly this sequence.
\<close>

theorem cls_before_drawing_and_print_last:
  "emitted config ! 4 = ''CLS''
   \<and> (\<forall>i < length (emitted config).
         is_TEXT (emitted config ! i) \<or> is_BARCODE (emitted config ! i) \<longrightarrow> 4 < i)
   \<and> emitted config \<noteq> []
   \<and> last (emitted config) = ''PRINT 1,'' @ str_int (num_copies config)
   \<and> (\<forall>i < length (emitted config).
         is_PRINT (emitted config ! i) \<longleftrightarrow> i = length (emitted config) - 1)
   \<and> print_barcode config (p, w) =
       (case wait_printer p w of
          None \<Rightarrow> None
        | Some (Inl e, w1) \<Rightarrow> Some (Inl e, (p, w1))
        | Some (Inr u, w1) \<Rightarrow> Some (send_all (emitted config) (p, w1)))"
proof -
  let ?e = "emitted config"
  have e: "?e = preamble config @ drawing config @ [PRINT_line config]"
    by (rule emitted_eq)
  have cls: "?e ! 4 = ''CLS''"
    by (simp add: e nth_append) (simp add: preamble_def)
  have before: "4 < i" if "i < length ?e" and "is_TEXT (?e ! i) \<or> is_BARCODE (?e ! i)" for i
  proof (rule ccontr)
    assume "\<not> 4 < i"
    then have "i < length (preamble config)" by simp
    then have "?e ! i \<in> set (preamble config)" by (simp add: e nth_append)
    with preamble_not_drawing that(2) show False by blast
  qed
  have lastp: "last ?e = ''PRINT 1,'' @ str_int (num_copies config)"
    by (simp add: e PRINT_line_def)
  have only: "is_PRINT (?e ! i) \<longleftrightarrow> i = length ?e - 1" if "i < length ?e" for i
  proof (cases "i = length ?e - 1")
    case True
    then have "?e ! i = last ?e" using that by (simp add: last_conv_nth e)
    then show ?thesis using True by (simp add: e)
  next
    case False
    with that have i: "i < length (preamble config @ drawing config)" by (simp add: e)
    have "?e = (preamble config @ drawing config) @ [PRINT_line config]" by (simp add: e)
    with i have "?e ! i = (preamble config @ drawing config) ! i"
      by (metis nth_append)
    with i have "?e ! i \<in> set (preamble config @ drawing config)"
      by (metis nth_mem)
    then have "\<not> is_PRINT (?e ! i)"
      using preamble_not_drawing drawing_kinds by auto
    with False show ?thesis by simp
  qed
  have pb: "print_barcode config (p, w) =
       (case wait_printer p w of
          None \<Rightarrow> None
        | Some (Inl e, w1) \<Rightarrow> Some (Inl e, (p, w1))
        | Some (Inr u, w1) \<Rightarrow> Some (send_all (emitted config) (p, w1)))"
    unfolding e by (rule print_barcode_eq)
  from cls before lastp only pb show ?thesis by (simp add: e)
qed

theorem cls_before_drawing_and_print_last_witness:
  "emitted example_config ! 4 = ''CLS''
   \<and> 5 < length (emitted example_config) \<and> is_TEXT (emitted example_config ! 5) \<and> (4::nat) < 5
   \<and> 6 < length (emitted example_config) \<and> is_BARCODE (emitted example_config ! 6) \<and> (4::nat) < 6
   \<and> is_PRINT (emitted example_config ! 8) \<and> 8 = length (emitted example_config) - 1
   \<and> last (emitted example_config) = ''PRINT 1,1''
   \<and> print_barcode example_config (dry_printer, quiet_world) =
       Some (Inr (), (dry_printer, quiet_world\<lparr>trace := map Stdout (emitted example_config)\<rparr>))"
  using cls_before_drawing_and_print_last [of example_config dry_printer quiet_world]
  by (simp add: emitted_example print_barcode_dry_quiet is_PRINT_def)

text \<open>
  C3. An element with empty content (top text, barcode data, bottom text) has no line:
  the \<open>TEXT\<close> lines are those of the non-empty texts, the \<open>BARCODE\<close> line is
  there only for non-empty barcode data, and the sequence has 5 lines of preamble, one
  line for each non-empty element, and the \<open>PRINT\<close> line.
\<close>

theorem empty_elements_omitted:
  "length (emitted config) =
      5 + (if top_text config \<noteq> [] then 1 else 0) + (if barcode_data config \<noteq> [] then 1 else 0)
        + (if bottom_text config \<noteq> [] then 1 else 0) + 1
   \<and> filter is_TEXT (emitted config) =
       (if top_text config \<noteq> [] then
          [TEXT_line (center_x config) y_top (font_size config) (top_text config)] else [])
       @ (if bottom_text config \<noteq> [] then
            [TEXT_line (center_x config) (y_bottom config) (font_size config) (bottom_text config)]
          else [])
   \<and> filter is_BARCODE (emitted config) =
       (if barcode_data config \<noteq> [] then
          [BARCODE_line (center_x config) (y_barcode config) (barcode_height config * DOTS_MM)
             (barcode_width config) (barcode_data config)]
        else [])
   \<and> (barcode_data config = [] \<longrightarrow> \<not> list_ex is_BARCODE (emitted config))
   \<and> (top_text config = [] \<and> bottom_text config = [] \<longrightarrow> \<not> list_ex is_TEXT (emitted config))
   \<and> take 5 (emitted config) = preamble config
   \<and> filter is_PRINT (emitted config) = [''PRINT 1,'' @ str_int (num_copies config)]
   \<and> print_barcode config (p, w) =
       (case wait_printer p w of
          None \<Rightarrow> None
        | Some (Inl e, w1) \<Rightarrow> Some (Inl e, (p, w1))
        | Some (Inr u, w1) \<Rightarrow> Some (send_all (emitted config) (p, w1)))"
proof -
  have e: "emitted config = preamble config @ drawing config @ [PRINT_line config]"
    by (rule emitted_eq)
  have len: "length (drawing config) =
      (if top_text config \<noteq> [] then 1 else 0) + (if barcode_data config \<noteq> [] then 1 else 0)
        + (if bottom_text config \<noteq> [] then 1 else 0)"
    by (simp add: drawing_def)
  have ft: "filter is_TEXT (drawing config) =
       (if top_text config \<noteq> [] then
          [TEXT_line (center_x config) y_top (font_size config) (top_text config)] else [])
       @ (if bottom_text config \<noteq> [] then
            [TEXT_line (center_x config) (y_bottom config) (font_size config) (bottom_text config)]
          else [])"
    by (simp add: drawing_def)
  have fb: "filter is_BARCODE (drawing config) =
       (if barcode_data config \<noteq> [] then
          [BARCODE_line (center_x config) (y_barcode config) (barcode_height config * DOTS_MM)
             (barcode_width config) (barcode_data config)]
        else [])"
    by (simp add: drawing_def)
  have fp: "filter is_PRINT (drawing config) = []"
    using drawing_kinds [of _ config] by (auto simp add: filter_empty_conv)
  have pb: "print_barcode config (p, w) =
       (case wait_printer p w of
          None \<Rightarrow> None
        | Some (Inl e, w1) \<Rightarrow> Some (Inl e, (p, w1))
        | Some (Inr u, w1) \<Rightarrow> Some (send_all (emitted config) (p, w1)))"
    unfolding e by (rule print_barcode_eq)
  have l: "length (emitted config) =
      5 + (if top_text config \<noteq> [] then 1 else 0) + (if barcode_data config \<noteq> [] then 1 else 0)
        + (if bottom_text config \<noteq> [] then 1 else 0) + 1"
    by (simp add: e len)
  have t: "filter is_TEXT (emitted config) = filter is_TEXT (drawing config)"
    by (simp add: e)
  have b: "filter is_BARCODE (emitted config) = filter is_BARCODE (drawing config)"
    by (simp add: e)
  have nb: "\<not> list_ex is_BARCODE (emitted config)" if "barcode_data config = []"
    using that by (simp add: list_ex_filter b fb)
  have nt: "\<not> list_ex is_TEXT (emitted config)"
    if "top_text config = [] \<and> bottom_text config = []"
    using that by (simp add: list_ex_filter t ft)
  have pr: "filter is_PRINT (emitted config) = [''PRINT 1,'' @ str_int (num_copies config)]"
    using fp by (simp add: e) (simp add: PRINT_line_def)
  have tk: "take 5 (emitted config) = preamble config"
    by (simp add: e)
  show ?thesis
    using l t b nb nt tk pr pb unfolding ft fb by blast
qed

theorem empty_elements_omitted_witness:
  "length (emitted (example_config\<lparr>barcode_data := [], bottom_text := []\<rparr>)) = 7
   \<and> filter is_TEXT (emitted (example_config\<lparr>barcode_data := [], bottom_text := []\<rparr>)) =
        [TEXT_line 400 10 24 ''PRODUCT'']
   \<and> \<not> list_ex is_BARCODE (emitted (example_config\<lparr>barcode_data := [], bottom_text := []\<rparr>))
   \<and> length (emitted (BarcodeConfig_init\<lparr>barcode_data := ''1''\<rparr>)) = 7
   \<and> \<not> list_ex is_TEXT (emitted (BarcodeConfig_init\<lparr>barcode_data := ''1''\<rparr>))"
  using empty_elements_omitted
          [of "example_config\<lparr>barcode_data := [], bottom_text := []\<rparr>" dry_printer quiet_world]
        empty_elements_omitted [of "BarcodeConfig_init\<lparr>barcode_data := ''1''\<rparr>" dry_printer quiet_world]
  by (simp add: example_config_def BarcodeConfig_init_def center_x_def y_top_def DOTS_MM_def)

text \<open>
  C8. The lines of a print operation depend on the configuration only, and every
  transport gets the same ones. Whatever the state before, the dry-run printer appends
  exactly the lines of \<open>emitted config\<close> to standard output, one \<open>print\<close> for each
  line, and does nothing else: no write, no read, no job. A device that answers ready
  is written these lines, each followed by CR LF, after the one status query; the
  spooler gets them as one job.
\<close>

theorem same_lines_on_every_transport:
  "(dry_run p \<longrightarrow>
      print_barcode config (p, w) =
        Some (Inr (), (p, w\<lparr>trace := trace w @ map Stdout (emitted config)\<rparr>)))
   \<and> (\<not> dry_run p \<and> \<not> is_windows p \<and> replies w = r # rs \<and> reply_ready r \<longrightarrow>
        print_barcode config (p, w) =
          Some (Inr (), (p, w\<lparr>trace := trace w @ query_events r @ wire_events (emitted config),
                               replies := rs\<rparr>)))
   \<and> (\<not> dry_run p \<and> is_windows p \<and> spooler_ok w
        \<and> (command_buffer p = None \<or> command_buffer p = Some []) \<longrightarrow>
        print_barcode config (p, w) =
          Some (Inr (), (p\<lparr>command_buffer := Some []\<rparr>,
                         w\<lparr>trace := trace w @ [spooler_job (emitted config)]\<rparr>)))"
  using print_barcode_dry_emitted print_barcode_device_ready print_barcode_spooler
  by blast

theorem same_lines_on_every_transport_witness:
  "print_barcode example_config (dry_printer, quiet_world) =
     Some (Inr (), (dry_printer, quiet_world\<lparr>trace := map Stdout (emitted example_config)\<rparr>))
   \<and> print_barcode example_config
        (device_printer, quiet_world\<lparr>replies := [[0, 0x40, 0x40, 0x40, 0x40, 0, 0, 0]]\<rparr>) =
       Some (Inr (), (device_printer,
         quiet_world\<lparr>trace := query_events [0, 0x40, 0x40, 0x40, 0x40, 0, 0, 0]
                               @ wire_events (emitted example_config)\<rparr>))
   \<and> print_barcode example_config (spooler_printer, quiet_world) =
       Some (Inr (), (spooler_printer\<lparr>command_buffer := Some []\<rparr>,
                      quiet_world\<lparr>trace := [spooler_job (emitted example_config)]\<rparr>))"
  using same_lines_on_every_transport
          [of dry_printer example_config quiet_world "[]" "[]"]
        same_lines_on_every_transport
          [of device_printer example_config
              "quiet_world\<lparr>replies := [[0, 0x40, 0x40, 0x40, 0x40, 0, 0, 0]]\<rparr>"
              "[0, 0x40, 0x40, 0x40, 0x40, 0, 0, 0]" "[]"]
        same_lines_on_every_transport
          [of spooler_printer example_config quiet_world "[]" "[]"]
        ready_reply
  by (simp add: dry_printer_def device_printer_def spooler_printer_def quiet_world_def)

text \<open>
  C4, as stated, fails: the program has no check of the dimensions. A label of width 0
  and height -5 is printed like any other; the dry-run printer logs its lines, the
  \<open>SIZE\<close> line with the two numbers as they are, and the operation returns normally.
\<close>

theorem nonpositive_dimensions_counterexample:
  "print_barcode (BarcodeConfig_init\<lparr>width_mm := 0, height_mm := - 5, barcode_data := ''1''\<rparr>)
     (dry_printer, quiet_world) =
   Some (Inr (), (dry_printer,
     quiet_world\<lparr>trace :=
       [Stdout ''SIZE 0 mm,-5 mm'', Stdout ''GAP 2 mm,0 mm'', Stdout ''CODEPAGE UTF-8'',
        Stdout ''DIRECTION 1'', Stdout ''CLS'', Stdout (BARCODE_line 0 10 120 2 ''1''),
        Stdout ''PRINT 1,1'']\<rparr>))"
  by (simp add: print_barcode_dry quiet_world_def BarcodeConfig_init_def format_defs str_int_eval)

text \<open>
  C4, amended. No configuration is rejected for its geometry. Whatever the width and
  the height, also zero or negative, the print operation waits for the printer and then
  sends the lines of the configuration; the first line is \<open>SIZE\<close> with the width and
  the height as given. On the dry-run printer the operation always returns normally.
\<close>

theorem no_geometry_check:
  "print_barcode config (p, w) =
     (case wait_printer p w of
        None \<Rightarrow> None
      | Some (Inl e, w1) \<Rightarrow> Some (Inl e, (p, w1))
      | Some (Inr u, w1) \<Rightarrow> Some (send_all (emitted config) (p, w1)))
   \<and> emitted config \<noteq> []
   \<and> hd (emitted config) =
       ''SIZE '' @ str_int (width_mm config) @ '' mm,'' @ str_int (height_mm config) @ '' mm''
   \<and> (dry_run p \<longrightarrow>
        print_barcode config (p, w) =
          Some (Inr (), (p, w\<lparr>trace := trace w @ map Stdout (emitted config)\<rparr>)))"
proof -
  have "hd (emitted config) =
       ''SIZE '' @ str_int (width_mm config) @ '' mm,'' @ str_int (height_mm config) @ '' mm''"
    by (simp add: emitted_eq preamble_def)
  moreover have "emitted config \<noteq> []" by (simp add: emitted_eq)
  ultimately show ?thesis
    using send_all_emitted [of config p w] print_barcode_dry_emitted [of p config w] by blast
qed

theorem no_geometry_check_witness:
  "hd (emitted (BarcodeConfig_init\<lparr>width_mm := 0, height_mm := - 5\<rparr>)) = ''SIZE 0 mm,-5 mm''
   \<and> dry_run dry_printer
   \<and> print_barcode (BarcodeConfig_init\<lparr>width_mm := 0, height_mm := - 5\<rparr>)
        (dry_printer, quiet_world) =
       Some (Inr (), (dry_printer, quiet_world\<lparr>trace :=
         map Stdout (emitted (BarcodeConfig_init\<lparr>width_mm := 0, height_mm := - 5\<rparr>))\<rparr>))"
proof -
  let ?c = "BarcodeConfig_init\<lparr>width_mm := 0, height_mm := - 5\<rparr>"
  note t = no_geometry_check [of ?c dry_printer quiet_world]
  have d: "dry_run dry_printer" by simp
  from t have h: "hd (emitted ?c) =
      ''SIZE '' @ str_int (width_mm ?c) @ '' mm,'' @ str_int (height_mm ?c) @ '' mm''"
    by blast
  from t d have p: "print_barcode ?c (dry_printer, quiet_world) =
      Some (Inr (), (dry_printer,
        quiet_world\<lparr>trace := trace quiet_world @ map Stdout (emitted ?c)\<rparr>))"
    by blast
  show ?thesis
  proof (intro conjI)
    show "hd (emitted ?c) = ''SIZE 0 mm,-5 mm''"
      unfolding h by (simp add: BarcodeConfig_init_def str_int_eval)
    show "dry_run dry_printer" by (rule d)
    show "print_barcode ?c (dry_printer, quiet_world) =
       Some (Inr (), (dry_printer, quiet_world\<lparr>trace := map Stdout (emitted ?c)\<rparr>))"
      unfolding p by (simp add: quiet_world_def)
  qed
qed

text \<open>
  C9, as stated, fails: the gap is not the same after every kind of element. With a
  font size of 24 and a barcode 120 dots high, the barcode is at 10 + 24 + 10 = 44, a
  gap of 10 after the text, and the bottom text at 44 + 120 + 20 = 184, a gap of 20
  after the barcode, not at 44 + 120 + 10.
\<close>

theorem uniform_gap_counterexample:
  "emitted example_config ! 5 = TEXT_line 400 10 24 ''PRODUCT''
   \<and> emitted example_config ! 6 = BARCODE_line 400 (10 + 24 + 10) 120 2 ''123456789012''
   \<and> emitted example_config ! 7 = TEXT_line 400 (44 + 120 + 20) 24 ''Made in USA''
   \<and> emitted example_config ! 7 \<noteq> TEXT_line 400 (44 + 120 + 10) 24 ''Made in USA''"
  by (simp add: emitted_example TEXT_line_def str_int_eval)

text \<open>
  C9, amended. The first element is placed at y = 10. The top text, when there is one,
  moves the next element down by the font size plus 10; the barcode, when there is
  one, moves the next element down by its height in dots (\<open>barcode_height\<close> times
  \<open>DOTS_MM\<close>) plus 20.
\<close>

theorem vertical_placement:
  "(let y_text = 10;
        y_code = (if top_text config \<noteq> [] then y_text + font_size config + 10 else y_text);
        y_last = (if barcode_data config \<noteq> []
                  then y_code + barcode_height config * DOTS_MM + 20 else y_code)
    in emitted config =
         preamble config
         @ (if top_text config \<noteq> [] then
              [TEXT_line (center_x config) y_text (font_size config) (top_text config)]
            else [])
         @ (if barcode_data config \<noteq> [] then
              [BARCODE_line (center_x config) y_code (barcode_height config * DOTS_MM)
                 (barcode_width config) (barcode_data config)]
            else [])
         @ (if bottom_text config \<noteq> [] then
              [TEXT_line (center_x config) y_last (font_size config) (bottom_text config)]
            else [])
         @ [''PRINT 1,'' @ str_int (num_copies config)])"
  by (simp add: emitted_eq drawing_def y_top_def y_barcode_def y_bottom_def PRINT_line_def
      Let_def add.assoc)

theorem vertical_placement_witness:
  "emitted example_config =
     preamble example_config
     @ [TEXT_line 400 10 24 ''PRODUCT'',
        BARCODE_line 400 44 120 2 ''123456789012'',
        TEXT_line 400 184 24 ''Made in USA'',
        ''PRINT 1,1'']"
  using vertical_placement [of example_config]
  by (simp add: example_config_def BarcodeConfig_init_def center_x_def DOTS_MM_def Let_def
      str_int_eval)

text \<open>
  C5. On a device that answers not ready to the first queries and then ready,
  \<open>wait_printer\<close> returns after one query more than there were busy answers; it
  sleeps 0.5 after the first busy answer and 1 after each later one. With two busy
  answers that is 3 queries and a wait of 0.5 + 1 = 1.5. The number of retries has no
  bound: the statement holds for any number of busy answers, and on a device that
  never answers ready \<open>wait_printer\<close> does not return.
\<close>

theorem backoff_schedule:
  "(\<not> dry_run p \<and> \<not> is_windows p \<and> replies w = busy @ ready # rest
      \<and> list_all reply_busy busy \<and> reply_ready ready \<longrightarrow>
      wait_printer p w =
        Some (Inr (), w\<lparr>trace := trace w @ waiting_events busy ready, replies := rest\<rparr>)
      \<and> status_queries (waiting_events busy ready) = length busy + 1
      \<and> sleeps (waiting_events busy ready) =
          (case busy of [] \<Rightarrow> [] | b # bs \<Rightarrow> (1 / 2) # replicate (length bs) 1)
      \<and> (length busy = 2 \<longrightarrow>
           status_queries (waiting_events busy ready) = 3
           \<and> sleeps (waiting_events busy ready) = [1 / 2, 1]
           \<and> sum_list (sleeps (waiting_events busy ready)) = 3 / 2))
   \<and> (\<not> dry_run p \<and> \<not> is_windows p \<and> list_all reply_busy (replies w) \<longrightarrow>
        wait_printer p w = None)"
proof -
  have two: "sleeps (waiting_events busy ready) = [1 / 2, 1]" if "length busy = 2"
  proof -
    from that obtain a b where "busy = [a, b]"
      by (cases busy; cases "tl busy") auto
    then show ?thesis by (simp add: waiting_events_counts)
  qed
  show ?thesis
    using wait_printer_busy_then_ready [of p busy ready w rest]
      wait_printer_never_ready [of p w] two
    by (auto simp add: waiting_events_counts(1) waiting_events_counts(2) simp del: One_nat_def)
qed

theorem backoff_schedule_witness:
  "wait_printer device_printer
     (quiet_world\<lparr>replies := [[0, 0x45, 0x40, 0x40, 0x40, 0, 0, 0], [0, 0x40],
                               [0, 0x40, 0x40, 0x40, 0x40, 0, 0, 0]]\<rparr>) =
   Some (Inr (), quiet_world\<lparr>trace :=
     [OsWrite status_probe, OsRead [0, 0x45, 0x40, 0x40, 0x40, 0, 0, 0],
      Stderr (''Waiting for printer...'' @ NL), Sleep (1 / 2),
      OsWrite status_probe, OsRead [0, 0x40], Sleep 1,
      OsWrite status_probe, OsRead [0, 0x40, 0x40, 0x40, 0x40, 0, 0, 0]]\<rparr>)
   \<and> status_queries (waiting_events [[0, 0x45, 0x40, 0x40, 0x40, 0, 0, 0], [0, 0x40]]
        [0, 0x40, 0x40, 0x40, 0x40, 0, 0, 0]) = 3
   \<and> sum_list (sleeps (waiting_events [[0, 0x45, 0x40, 0x40, 0x40, 0, 0, 0], [0, 0x40]]
        [0, 0x40, 0x40, 0x40, 0x40, 0, 0, 0])) = 3 / 2
   \<and> wait_printer device_printer
        (quiet_world\<lparr>replies := [[0, 0x45, 0x40, 0x40, 0x40, 0, 0, 0]]\<rparr>) = None"
proof -
  let ?e = "[0, 0x45, 0x40, 0x40, 0x40, 0, 0, 0] :: bytes"
  let ?s = "[0, 0x40] :: bytes"
  let ?r = "[0, 0x40, 0x40, 0x40, 0x40, 0, 0, 0] :: bytes"
  note a = backoff_schedule [of device_printer "quiet_world\<lparr>replies := [?e, ?s, ?r]\<rparr>"
      "[?e, ?s]" ?r "[]"]
  note b = backoff_schedule [of device_printer "quiet_world\<lparr>replies := [?e]\<rparr>" "[]" ?r "[]"]
  have h: "list_all reply_busy [?e, ?s]" "reply_ready ?r" "list_all reply_busy [?e]"
    using busy_replies ready_reply by simp_all
  from a h have 1: "wait_printer device_printer (quiet_world\<lparr>replies := [?e, ?s, ?r]\<rparr>) =
      Some (Inr (), quiet_world\<lparr>replies := [?e, ?s, ?r]\<rparr>
        \<lparr>trace := trace (quiet_world\<lparr>replies := [?e, ?s, ?r]\<rparr>) @ waiting_events [?e, ?s] ?r,
         replies := []\<rparr>)"
    and 2: "status_queries (waiting_events [?e, ?s] ?r) = 3"
    and 3: "sum_list (sleeps (waiting_events [?e, ?s] ?r)) = 3 / 2"
    by simp_all
  from b h have 4: "wait_printer device_printer (quiet_world\<lparr>replies := [?e]\<rparr>) = None"
    by simp
  show ?thesis
    unfolding 1 2 3 4
    by (simp add: waiting_events_def query_events_def quiet_world_def)
qed

text \<open>
  C6, as stated, fails on both kinds of malformed response. A response with a byte
  that is not ASCII among its bytes 1 to 4 is not taken for not ready: decoding raises
  \<open>UnicodeDecodeError\<close>, which ends \<open>wait_printer\<close> and the whole print operation.
  And a response of the wrong length, 5 bytes instead of 8, is reported ready when its
  bytes 1 to 4 match.
\<close>

theorem malformed_status_counterexample:
  "wait_printer device_printer (quiet_world\<lparr>replies := [[0, 0xFF, 0x40, 0x40, 0x40, 0, 0, 0]]\<rparr>) =
     Some (Inl UnicodeDecodeError,
       quiet_world\<lparr>trace := [OsWrite status_probe, OsRead [0, 0xFF, 0x40, 0x40, 0x40, 0, 0, 0]]\<rparr>)
   \<and> print_barcode example_config
        (device_printer, quiet_world\<lparr>replies := [[0, 0xFF, 0x40, 0x40, 0x40, 0, 0, 0]]\<rparr>) =
       Some (Inl UnicodeDecodeError, (device_printer,
         quiet_world\<lparr>trace := [OsWrite status_probe, OsRead [0, 0xFF, 0x40, 0x40, 0x40, 0, 0, 0]]\<rparr>))
   \<and> can_print device_printer (quiet_world\<lparr>replies := [[0, 0x40, 0x40, 0x40, 0x40]]\<rparr>) =
       (Inr True,
        quiet_world\<lparr>trace := [OsWrite status_probe, OsRead [0, 0x40, 0x40, 0x40, 0x40]]\<rparr>)"
proof -
  have t: "reply_token [0, 0xFF, 0x40, 0x40, 0x40, 0, 0, 0] = Inl UnicodeDecodeError"
    by (simp add: reply_token_def decode_ascii_def)
  have r: "reply_ready [0, 0x40, 0x40, 0x40, 0x40]"
    by (simp add: reply_ready_def reply_token_def decode_ascii_def char_of_eq_iff
        status_pattern_def)
  have k: "\<not> dry_run device_printer" "\<not> is_windows device_printer" by simp_all
  show ?thesis
    using wait_printer_error(3,4) [OF k _ t, of _ "[]"] can_print_ready [OF k _ r, of _ "[]"]
    by (simp add: quiet_world_def query_events_def)
qed

text \<open>
  C6, amended. On the device file, a response whose bytes at offsets 1 to 4 (as many
  as there are) are ASCII never raises: \<open>can_print\<close> judges the token. When such a
  response has fewer than 5 bytes it is not ready, and the poller sleeps and queries
  again (it returns when the next answer is ready). A response with a byte of 128 or
  more at offsets 1 to 4 raises \<open>UnicodeDecodeError\<close>, in \<open>can_print\<close>, in
  \<open>wait_printer\<close> and in \<open>print_barcode\<close>: nothing retries, and no command is sent.
\<close>

theorem malformed_status:
  "\<not> dry_run p \<and> \<not> is_windows p \<and> replies w = r # rs \<longrightarrow>
     (let w1 = w\<lparr>trace := trace w @ query_events r, replies := rs\<rparr>
      in (list_all (\<lambda>b. b < 128) (take 4 (drop 1 (take 8 r))) \<longrightarrow>
            can_print p w = (Inr (reply_ready r), w1))
         \<and> (list_all (\<lambda>b. b < 128) (take 4 (drop 1 (take 8 r))) \<and> length r < 5 \<longrightarrow>
              can_print p w = (Inr False, w1)
              \<and> wait_printer p w =
                  wait_loop p (sleep (1 / 2) (emit_event (Stderr (''Waiting for printer...'' @ NL)) w1))
              \<and> wait_loop p w = wait_loop p (sleep 1 w1)
              \<and> (\<forall>ready rest. rs = ready # rest \<and> reply_ready ready \<longrightarrow>
                    wait_printer p w =
                      Some (Inr (), w\<lparr>trace := trace w @ waiting_events [r] ready,
                                      replies := rest\<rparr>)))
         \<and> (\<not> list_all (\<lambda>b. b < 128) (take 4 (drop 1 (take 8 r))) \<longrightarrow>
              can_print p w = (Inl UnicodeDecodeError, w1)
              \<and> wait_loop p w = Some (Inl UnicodeDecodeError, w1)
              \<and> wait_printer p w = Some (Inl UnicodeDecodeError, w1)
              \<and> print_barcode config (p, w) = Some (Inl UnicodeDecodeError, (p, w1))))"
proof (intro impI)
  assume a: "\<not> dry_run p \<and> \<not> is_windows p \<and> replies w = r # rs"
  then have k: "\<not> dry_run p" "\<not> is_windows p" and rep: "replies w = r # rs" by simp_all
  let ?w1 = "w\<lparr>trace := trace w @ query_events r, replies := rs\<rparr>"
  let ?ascii = "list_all (\<lambda>b. b < 128) (take 4 (drop 1 (take 8 r)))"
  have 1: "can_print p w = (Inr (reply_ready r), ?w1)" if ?ascii
    using reply_token_ascii [OF that]
    by (simp add: can_print_device [OF k rep] reply_ready_def)
  have 2: "can_print p w = (Inr False, ?w1)" if "?ascii \<and> length r < 5"
    using that short_reply_busy can_print_busy [OF k rep] by blast
  have 3: "wait_printer p w =
      wait_loop p (sleep (1 / 2) (emit_event (Stderr (''Waiting for printer...'' @ NL)) ?w1))"
    if "?ascii \<and> length r < 5"
    using k(1) by (simp add: wait_printer_def 2 [OF that])
  have 4: "wait_loop p w = wait_loop p (sleep 1 ?w1)" if "?ascii \<and> length r < 5"
    by (subst wait_loop.simps) (simp add: 2 [OF that])
  have 5: "wait_printer p w =
      Some (Inr (), w\<lparr>trace := trace w @ waiting_events [r] ready, replies := rest\<rparr>)"
    if "?ascii \<and> length r < 5" and "rs = ready # rest \<and> reply_ready ready" for ready rest
  proof -
    from that(1) have "reply_busy r" using short_reply_busy by blast
    then show ?thesis
      using that(2) rep by (intro wait_printer_busy_then_ready [OF k]) simp_all
  qed
  have 6: "can_print p w = (Inl UnicodeDecodeError, ?w1)"
      "wait_loop p w = Some (Inl UnicodeDecodeError, ?w1)"
      "wait_printer p w = Some (Inl UnicodeDecodeError, ?w1)"
      "print_barcode config (p, w) = Some (Inl UnicodeDecodeError, (p, ?w1))"
    if "\<not> ?ascii"
    using wait_printer_error [OF k rep reply_token_not_ascii [OF that]] by simp_all
  show "let w1 = ?w1
      in (?ascii \<longrightarrow> can_print p w = (Inr (reply_ready r), w1))
         \<and> (?ascii \<and> length r < 5 \<longrightarrow>
              can_print p w = (Inr False, w1)
              \<and> wait_printer p w =
                  wait_loop p (sleep (1 / 2) (emit_event (Stderr (''Waiting for printer...'' @ NL)) w1))
              \<and> wait_loop p w = wait_loop p (sleep 1 w1)
              \<and> (\<forall>ready rest. rs = ready # rest \<and> reply_ready ready \<longrightarrow>
                    wait_printer p w =
                      Some (Inr (), w\<lparr>trace := trace w @ waiting_events [r] ready,
                                      replies := rest\<rparr>)))
         \<and> (\<not> ?ascii \<longrightarrow>
              can_print p w = (Inl UnicodeDecodeError, w1)
              \<and> wait_loop p w = Some (Inl UnicodeDecodeError, w1)
              \<and> wait_printer p w = Some (Inl UnicodeDecodeError, w1)
              \<and> print_barcode config (p, w) = Some (Inl UnicodeDecodeError, (p, w1)))"
    unfolding Let_def using 1 2 3 4 5 6 by blast
qed


theorem malformed_status_witness:
  "can_print device_printer
     (quiet_world\<lparr>replies := [[0, 0x40], [0, 0x40, 0x40, 0x40, 0x40, 0, 0, 0]]\<rparr>) =
     (Inr False, quiet_world\<lparr>trace := [OsWrite status_probe, OsRead [0, 0x40]],
                             replies := [[0, 0x40, 0x40, 0x40, 0x40, 0, 0, 0]]\<rparr>)
   \<and> wait_printer device_printer
        (quiet_world\<lparr>replies := [[0, 0x40], [0, 0x40, 0x40, 0x40, 0x40, 0, 0, 0]]\<rparr>) =
       Some (Inr (), quiet_world\<lparr>trace :=
         [OsWrite status_probe, OsRead [0, 0x40],
          Stderr (''Waiting for printer...'' @ NL), Sleep (1 / 2),
          OsWrite status_probe, OsRead [0, 0x40, 0x40, 0x40, 0x40, 0, 0, 0]]\<rparr>)
   \<and> wait_printer device_printer
        (quiet_world\<lparr>replies := [[0, 0xFF, 0x40, 0x40, 0x40, 0, 0, 0]]\<rparr>) =
       Some (Inl UnicodeDecodeError, quiet_world\<lparr>trace :=
         [OsWrite status_probe, OsRead [0, 0xFF, 0x40, 0x40, 0x40, 0, 0, 0]]\<rparr>)"
proof -
  let ?s = "[0, 0x40] :: bytes"
  let ?r = "[0, 0x40, 0x40, 0x40, 0x40, 0, 0, 0] :: bytes"
  let ?x = "[0, 0xFF, 0x40, 0x40, 0x40, 0, 0, 0] :: bytes"
  note a = malformed_status [of device_printer "quiet_world\<lparr>replies := [?s, ?r]\<rparr>" ?s "[?r]"
      example_config]
  note b = malformed_status [of device_printer "quiet_world\<lparr>replies := [?x]\<rparr>" ?x "[]"
      example_config]
  have h: "list_all (\<lambda>b. b < 128) (take 4 (drop 1 (take 8 ?s)))" "length ?s < 5"
      "\<not> list_all (\<lambda>b. b < 128) (take 4 (drop 1 (take 8 ?x)))"
    by simp_all
  have pa: "\<not> dry_run device_printer \<and> \<not> is_windows device_printer
      \<and> replies (quiet_world\<lparr>replies := [?s, ?r]\<rparr>) = ?s # [?r]"
    and pb: "\<not> dry_run device_printer \<and> \<not> is_windows device_printer
      \<and> replies (quiet_world\<lparr>replies := [?x]\<rparr>) = ?x # []"
    by simp_all
  from a [unfolded Let_def] pa h(1,2)
  have 1: "can_print device_printer (quiet_world\<lparr>replies := [?s, ?r]\<rparr>) =
      (Inr False, quiet_world\<lparr>replies := [?s, ?r]\<rparr>
        \<lparr>trace := trace (quiet_world\<lparr>replies := [?s, ?r]\<rparr>) @ query_events ?s, replies := [?r]\<rparr>)"
    by blast
  from a [unfolded Let_def] pa h(1,2) ready_reply
  have 2: "wait_printer device_printer (quiet_world\<lparr>replies := [?s, ?r]\<rparr>) =
      Some (Inr (), quiet_world\<lparr>replies := [?s, ?r]\<rparr>
        \<lparr>trace := trace (quiet_world\<lparr>replies := [?s, ?r]\<rparr>) @ waiting_events [?s] ?r,
         replies := []\<rparr>)"
    by blast
  from b [unfolded Let_def] pb h(3)
  have 3: "wait_printer device_printer (quiet_world\<lparr>replies := [?x]\<rparr>) =
      Some (Inl UnicodeDecodeError, quiet_world\<lparr>replies := [?x]\<rparr>
        \<lparr>trace := trace (quiet_world\<lparr>replies := [?x]\<rparr>) @ query_events ?x, replies := []\<rparr>)"
    by blast
  show ?thesis
    unfolding 1 2 3
    by (simp add: waiting_events_def query_events_def quiet_world_def)
qed

text \<open>
  C7, as stated, fails. A read may return fewer than 8 bytes, and then the token has
  fewer than 4 characters: a response of 3 bytes gives a token of 2. The token of a
  full response is the four bytes at offsets 1, 2, 3 and 4, the slice from 1 to 5, not
  the three bytes from 1 to 4 exclusive. And bytes that are not ASCII give no token at
  all.
\<close>

theorem status_token_counterexample:
  "printer_status device_printer (quiet_world\<lparr>replies := [[0, 0x40, 0x40]]\<rparr>) =
     (Inr ''@@'', quiet_world\<lparr>trace := [OsWrite status_probe, OsRead [0, 0x40, 0x40]]\<rparr>)
   \<and> printer_status device_printer
        (quiet_world\<lparr>replies := [[0, 0x42, 0x40, 0x40, 0x40, 0, 0, 0]]\<rparr>) =
       (Inr ''B@@@'',
        quiet_world\<lparr>trace := [OsWrite status_probe, OsRead [0, 0x42, 0x40, 0x40, 0x40, 0, 0, 0]]\<rparr>)
   \<and> decode_ascii (take (4 - 1) (drop 1 [0, 0x42, 0x40, 0x40, 0x40, 0, 0, 0])) = Inr ''B@@''
   \<and> printer_status device_printer
        (quiet_world\<lparr>replies := [[0, 0xFF, 0x40, 0x40, 0x40, 0, 0, 0]]\<rparr>) =
       (Inl UnicodeDecodeError,
        quiet_world\<lparr>trace := [OsWrite status_probe, OsRead [0, 0xFF, 0x40, 0x40, 0x40, 0, 0, 0]]\<rparr>)"
  by (simp add: printer_status_device reply_token_def decode_ascii_def char_of_eq_iff
      query_events_def quiet_world_def)

text \<open>
  C7, amended. A status query on the device file writes the probe and reads at most 8
  bytes. The token is the decoding as ASCII of the bytes at offsets 1 up to 5
  exclusive, as far as the response has them: character \<open>i\<close> of the token is byte
  \<open>i + 1\<close> of the response, and the token has \<open>min 4 (length r - 1)\<close> characters.
  It is a code of 4 characters when the response has at least 5 bytes and the bytes 1
  to 4 are ASCII.
\<close>

theorem status_token:
  "\<not> dry_run p \<and> \<not> is_windows p \<and> replies w = r # rs \<longrightarrow>
     printer_status p w =
       (decode_ascii (take 4 (drop 1 (take 8 r))),
        w\<lparr>trace := trace w @ [OsWrite status_probe, OsRead (take 8 r)], replies := rs\<rparr>)
     \<and> length (take 8 r) \<le> 8
     \<and> (\<forall>token. decode_ascii (take 4 (drop 1 (take 8 r))) = Inr token \<longrightarrow>
           length token = min 4 (length r - 1)
           \<and> (\<forall>i < length token. token ! i = char_of (unat (r ! (i + 1)))))
     \<and> (5 \<le> length r \<and> list_all (\<lambda>b. b < 128) (take 4 (drop 1 r)) \<longrightarrow>
           (\<exists>token. fst (printer_status p w) = Inr token \<and> length token = 4))"
proof (intro impI)
  assume a: "\<not> dry_run p \<and> \<not> is_windows p \<and> replies w = r # rs"
  let ?bs = "take 4 (drop 1 (take 8 r))"
  have ps: "printer_status p w =
       (decode_ascii ?bs,
        w\<lparr>trace := trace w @ [OsWrite status_probe, OsRead (take 8 r)], replies := rs\<rparr>)"
    using a by (simp add: printer_status_device reply_token_def query_events_def)
  have len: "length ?bs = min 4 (length r - 1)" by simp
  have nth: "?bs ! i = r ! (i + 1)" if "i < length ?bs" for i
  proof -
    from that have i4: "i < 4" and il: "i + 1 < length r" by auto
    have "?bs ! i = drop 1 (take 8 r) ! i" using i4 by simp
    also have "\<dots> = take 8 r ! (1 + i)" using il by (intro nth_drop) simp
    also have "\<dots> = r ! (i + 1)" using i4 by simp
    finally show ?thesis .
  qed
  have tok: "length token = min 4 (length r - 1)
      \<and> (\<forall>i < length token. token ! i = char_of (unat (r ! (i + 1))))"
    if "decode_ascii ?bs = Inr token" for token
  proof -
    from that have t: "token = map (\<lambda>b. char_of (unat b)) ?bs"
      by (simp add: decode_ascii_def split: if_splits)
    show ?thesis
      unfolding t using nth by (simp del: nth_take nth_drop add: len)
  qed
  have four: "\<exists>token. fst (printer_status p w) = Inr token \<and> length token = 4"
    if "5 \<le> length r \<and> list_all (\<lambda>b. b < 128) (take 4 (drop 1 r))"
  proof -
    have "?bs = take 4 (drop 1 r)" by (simp add: drop_take)
    with that show ?thesis by (auto simp add: ps decode_ascii_def)
  qed
  show "printer_status p w =
       (decode_ascii ?bs,
        w\<lparr>trace := trace w @ [OsWrite status_probe, OsRead (take 8 r)], replies := rs\<rparr>)
     \<and> length (take 8 r) \<le> 8
     \<and> (\<forall>token. decode_ascii ?bs = Inr token \<longrightarrow>
           length token = min 4 (length r - 1)
           \<and> (\<forall>i < length token. token ! i = char_of (unat (r ! (i + 1)))))
     \<and> (5 \<le> length r \<and> list_all (\<lambda>b. b < 128) (take 4 (drop 1 r)) \<longrightarrow>
           (\<exists>token. fst (printer_status p w) = Inr token \<and> length token = 4))"
    using ps tok four by simp
qed

theorem status_token_witness:
  "printer_status device_printer
     (quiet_world\<lparr>replies := [[0, 0x42, 0x40, 0x40, 0x40, 0, 0, 0]]\<rparr>) =
     (Inr ''B@@@'',
      quiet_world\<lparr>trace := [OsWrite status_probe, OsRead [0, 0x42, 0x40, 0x40, 0x40, 0, 0, 0]]\<rparr>)
   \<and> length ''B@@@'' = min 4 (length [0 :: 8 word, 0x42, 0x40, 0x40, 0x40, 0, 0, 0] - 1)"
proof -
  let ?r = "[0, 0x42, 0x40, 0x40, 0x40, 0, 0, 0] :: bytes"
  note t = status_token [of device_printer "quiet_world\<lparr>replies := [?r]\<rparr>" ?r "[]"]
  have d: "decode_ascii (take 4 (drop 1 (take 8 ?r))) = Inr ''B@@@''"
    by (simp add: decode_ascii_def char_of_eq_iff)
  from t have 1: "printer_status device_printer (quiet_world\<lparr>replies := [?r]\<rparr>) =
       (decode_ascii (take 4 (drop 1 (take 8 ?r))),
        quiet_world\<lparr>replies := [?r]\<rparr>
          \<lparr>trace := trace (quiet_world\<lparr>replies := [?r]\<rparr>) @ [OsWrite status_probe, OsRead (take 8 ?r)],
           replies := []\<rparr>)"
    by simp
  from t d have 2: "length ''B@@@'' = min 4 (length ?r - 1)"
    by simp
  show ?thesis
    unfolding 1 d using 2 by (simp add: quiet_world_def)
qed

text \<open>
  C10. The badge always has its two \<open>TEXT\<close> lines, also for an empty \<open>line1\<close> or
  \<open>line2\<close> (the line is then \<open>TEXT\<close> with an empty quoted text). Every print
  operation of print-badge.py that gets past the wait sends 8 commands: the 4 of the
  page setup, \<open>CLS\<close>, the 2 \<open>TEXT\<close> lines and \<open>PRINT\<close>; then it echoes the two
  lines on standard output.
\<close>

theorem badge_always_two_text_lines:
  \<open>(let lines =
          [''SIZE 100 mm,35 mm'', ''GAP 2 mm,0 mm'', ''CODEPAGE UTF-8'',
           ''DIRECTION '' @ str_int (orient prm), ''CLS'',
           ''TEXT 400,40,"0",0,36,36,2,"'' @ line1 prm @ ''"'',
           ''TEXT 400,144,"0",0,36,36,2,"'' @ line2 prm @ ''"'',
           ''PRINT 1,'' @ str_int (num prm)];
        echo = line1 prm @ '' '' @ line2 prm
    in Printer_print prm w =
         (case Printer_wait_printer prm w of
            None \<Rightarrow> None
          | Some (Inl e, w1) \<Rightarrow> Some (Inl e, w1)
          | Some (Inr u, w1) \<Rightarrow>
              Some (Inr (), emit_event (Stdout echo) (fold (Printer_command prm) lines w1)))
       \<and> length lines = 8
       \<and> filter is_TEXT lines = [lines ! 5, lines ! 6]
       \<and> Badge_print prm = [lines ! 4, lines ! 5, lines ! 6]
       \<and> (dry_run_arg prm \<longrightarrow>
            Printer_print prm w =
              Some (Inr (), w\<lparr>trace := trace w @ map Stdout lines @ [Stdout echo]\<rparr>))
       \<and> (\<not> dry_run_arg prm \<and> replies w = r # rs \<and> reply_ready r \<longrightarrow>
            Printer_print prm w =
              Some (Inr (), w\<lparr>trace := trace w @ query_events r @ wire_events lines
                                        @ [Stdout echo],
                              replies := rs\<rparr>)))\<close>
proof -
  define lines where \<open>lines =
          [''SIZE 100 mm,35 mm'', ''GAP 2 mm,0 mm'', ''CODEPAGE UTF-8'',
           ''DIRECTION '' @ str_int (orient prm), ''CLS'',
           ''TEXT 400,40,"0",0,36,36,2,"'' @ line1 prm @ ''"'',
           ''TEXT 400,144,"0",0,36,36,2,"'' @ line2 prm @ ''"'',
           ''PRINT 1,'' @ str_int (num prm)]\<close>
  define echo where "echo = line1 prm @ '' '' @ line2 prm"
  have eq: "Printer_print prm w =
         (case Printer_wait_printer prm w of
            None \<Rightarrow> None
          | Some (Inl e, w1) \<Rightarrow> Some (Inl e, w1)
          | Some (Inr u, w1) \<Rightarrow>
              Some (Inr (), emit_event (Stdout echo) (fold (Printer_command prm) lines w1)))"
    by (simp add: Printer_print_def page_setup_fold Badge_print_lines lines_def echo_def Let_def
        split: option.split sum.split prod.split)
  have len: "length lines = 8" by (simp add: lines_def)
  have ft: "filter is_TEXT lines = [lines ! 5, lines ! 6]"
    by (simp add: lines_def is_TEXT_def)
  have bp: "Badge_print prm = [lines ! 4, lines ! 5, lines ! 6]"
    by (simp add: lines_def Badge_print_lines)
  have dry: "Printer_print prm w =
      Some (Inr (), w\<lparr>trace := trace w @ map Stdout lines @ [Stdout echo]\<rparr>)"
    if "dry_run_arg prm"
    using that
    by (simp add: eq Printer_wait_printer_def fold_Printer_command_dry emit_event_def)
  have dev: "Printer_print prm w =
      Some (Inr (), w\<lparr>trace := trace w @ query_events r @ wire_events lines @ [Stdout echo],
                      replies := rs\<rparr>)"
    if "\<not> dry_run_arg prm \<and> replies w = r # rs \<and> reply_ready r"
    using that
    by (simp add: eq Printer_wait_printer_ready fold_Printer_command_device emit_event_def)
  show ?thesis
    unfolding Let_def lines_def [symmetric] echo_def [symmetric]
    using eq len ft bp dry dev by blast
qed


theorem badge_always_two_text_lines_witness:
  \<open>Printer_print \<lparr>dry_run_arg = True, yes = True, num = 2, orient = 1, line1 = ''John'', line2 = []\<rparr>
     quiet_world =
   Some (Inr (), quiet_world\<lparr>trace :=
     [Stdout ''SIZE 100 mm,35 mm'', Stdout ''GAP 2 mm,0 mm'', Stdout ''CODEPAGE UTF-8'',
      Stdout ''DIRECTION 1'', Stdout ''CLS'',
      Stdout ''TEXT 400,40,"0",0,36,36,2,"John"'',
      Stdout ''TEXT 400,144,"0",0,36,36,2,""'',
      Stdout ''PRINT 1,2'', Stdout ''John '']\<rparr>)
   \<and> Printer_print \<lparr>dry_run_arg = False, yes = True, num = 1, orient = 0, line1 = [], line2 = []\<rparr>
       (quiet_world\<lparr>replies := [[0, 0x40, 0x40, 0x40, 0x40, 0, 0, 0]]\<rparr>) =
     Some (Inr (), quiet_world\<lparr>trace :=
       query_events [0, 0x40, 0x40, 0x40, 0x40, 0, 0, 0]
       @ wire_events
          [''SIZE 100 mm,35 mm'', ''GAP 2 mm,0 mm'', ''CODEPAGE UTF-8'', ''DIRECTION 0'', ''CLS'',
           ''TEXT 400,40,"0",0,36,36,2,""'', ''TEXT 400,144,"0",0,36,36,2,""'', ''PRINT 1,1'']
       @ [Stdout '' '']\<rparr>)\<close>
proof -
  let ?a = "\<lparr>dry_run_arg = True, yes = True, num = 2, orient = 1, line1 = ''John'', line2 = []\<rparr>"
  let ?b = "\<lparr>dry_run_arg = False, yes = True, num = 1, orient = 0, line1 = [], line2 = []\<rparr>"
  let ?r = "[0, 0x40, 0x40, 0x40, 0x40, 0, 0, 0] :: bytes"
  note a = badge_always_two_text_lines [of ?a quiet_world "[]" "[]", unfolded Let_def]
  note b = badge_always_two_text_lines [of ?b "quiet_world\<lparr>replies := [?r]\<rparr>" ?r "[]",
      unfolded Let_def]
  have da: "dry_run_arg ?a" by simp
  have db: "\<not> dry_run_arg ?b \<and> replies (quiet_world\<lparr>replies := [?r]\<rparr>) = ?r # []
      \<and> reply_ready ?r"
    using ready_reply by simp
  from a da have 1: \<open>Printer_print ?a quiet_world =
      Some (Inr (), quiet_world\<lparr>trace := trace quiet_world @ map Stdout
          [''SIZE 100 mm,35 mm'', ''GAP 2 mm,0 mm'', ''CODEPAGE UTF-8'',
           ''DIRECTION '' @ str_int (orient ?a), ''CLS'',
           ''TEXT 400,40,"0",0,36,36,2,"'' @ line1 ?a @ ''"'',
           ''TEXT 400,144,"0",0,36,36,2,"'' @ line2 ?a @ ''"'',
           ''PRINT 1,'' @ str_int (num ?a)] @ [Stdout (line1 ?a @ '' '' @ line2 ?a)]\<rparr>)\<close>
    by blast
  from b db have 2: \<open>Printer_print ?b (quiet_world\<lparr>replies := [?r]\<rparr>) =
      Some (Inr (), quiet_world\<lparr>replies := [?r]\<rparr>
        \<lparr>trace := trace (quiet_world\<lparr>replies := [?r]\<rparr>) @ query_events ?r @ wire_events
          [''SIZE 100 mm,35 mm'', ''GAP 2 mm,0 mm'', ''CODEPAGE UTF-8'',
           ''DIRECTION '' @ str_int (orient ?b), ''CLS'',
           ''TEXT 400,40,"0",0,36,36,2,"'' @ line1 ?b @ ''"'',
           ''TEXT 400,144,"0",0,36,36,2,"'' @ line2 ?b @ ''"'',
           ''PRINT 1,'' @ str_int (num ?b)] @ [Stdout (line1 ?b @ '' '' @ line2 ?b)],
         replies := []\<rparr>)\<close>
    by blast
  show ?thesis
    unfolding 1 2 by (simp add: quiet_world_def str_int_eval)
qed

end
